theory Spec2Isabelle
  imports Complex_Main "HOL-Library.Log_Nat"
begin

section \<open>Python values and exceptions\<close>

text \<open>
  The two modules are orchestration code over Pyomo and IDAES objects. Exceptions are
  values of type \<open>error\<close>; a computation that may raise returns \<open>error + 'a\<close>, with
  \<open>Inl\<close> the exception raised.
\<close>

datatype error =
    KeyError string
  | IndexError
  | ValueError string
  | OverflowError
  | Exception string
  | InitializationError string
  | ApplicationError string

definition try_bind :: "error + 'a \<Rightarrow> ('a \<Rightarrow> error + 'b) \<Rightarrow> error + 'b" where
  "try_bind m f = (case m of Inl e \<Rightarrow> Inl e | Inr x \<Rightarrow> f x)"

subsection \<open>Floating-point numbers\<close>

text \<open>
  A Python \<open>float\<close> is an IEEE 754 binary64 number. \<open>Finite m e\<close> is the number
  \<open>m * 2 ^ e\<close>, kept in the form the format stores: \<open>2 ^ 52 \<le> \<bar>m\<bar> < 2 ^ 53\<close> and
  \<open>- 1074 \<le> e \<le> 971\<close> for a normal number, \<open>\<bar>m\<bar> < 2 ^ 52\<close> and \<open>e = - 1074\<close> for a
  subnormal one, and \<open>Finite 0 0\<close> for zero (the two zeros are not told apart). The
  argument of \<open>Infinite\<close> is the sign (\<open>True\<close> is negative).
\<close>

datatype double = Finite int int | Infinite bool | NaN

fun float_value :: "double \<Rightarrow> rat option" where
  "float_value (Finite m e) =
     Some (if 0 \<le> e then of_int (m * 2 ^ nat e) else of_int m / of_int (2 ^ nat (- e)))"
| "float_value (Infinite s) = None"
| "float_value NaN = None"

text \<open>\<open>round_half_even p q\<close> is the integer nearest to \<open>p / q\<close>, the even one of two.\<close>

definition round_half_even :: "int \<Rightarrow> int \<Rightarrow> int" where
  "round_half_even p q =
     (let f = p div q; r = p mod q in
      if 2 * r < q then f else if q < 2 * r then f + 1 else if even f then f else f + 1)"

text \<open>\<open>ilog2 p q\<close> is the integer \<open>k\<close> with \<open>2 ^ k \<le> p / q < 2 ^ (k + 1)\<close>, for positive
  \<open>p\<close> and \<open>q\<close>.\<close>

definition ilog2 :: "int \<Rightarrow> int \<Rightarrow> int" where
  "ilog2 p q =
     (let k = int (floorlog 2 (nat p)) - int (floorlog 2 (nat q)) in
      if (if 0 \<le> k then q * 2 ^ nat k \<le> p else q \<le> p * 2 ^ nat (- k)) then k else k - 1)"

text \<open>Rounding a positive ratio \<open>p / q\<close> to the nearest double, ties to even: the
  significand has 53 bits from \<open>2 ^ -1022\<close> on and the fixed exponent \<open>- 1074\<close> below
  (gradual underflow); a result of \<open>2 ^ 1024\<close> or more is infinite.\<close>

definition round_pos :: "int \<Rightarrow> int \<Rightarrow> double" where
  "round_pos p q =
     (let e = max (ilog2 p q) (- 1022) - 52;
          m = (if 0 \<le> e then round_half_even p (q * 2 ^ nat e)
               else round_half_even (p * 2 ^ nat (- e)) q);
          e' = (if m = 2 ^ 53 then e + 1 else e);
          m' = (if m = 2 ^ 53 then 2 ^ 52 else m)
      in if m' = 0 then Finite 0 0
         else if 971 < e' then Infinite False
         else Finite m' e')"

definition negate :: "double \<Rightarrow> double" where
  "negate d = (case d of Finite m e \<Rightarrow> Finite (- m) e | Infinite s \<Rightarrow> Infinite (\<not> s) | NaN \<Rightarrow> NaN)"

definition round_ratio :: "int \<Rightarrow> int \<Rightarrow> double" where
  "round_ratio p q =
     (if p = 0 then Finite 0 0
      else if 0 < p then round_pos p q
      else negate (round_pos (- p) q))"

text \<open>A decimal literal denotes the double nearest to it: \<open>1.7\<close> is
  \<open>float_literal 17 10\<close> and \<open>1e-10\<close> is \<open>float_literal 1 (10 ^ 10)\<close>.\<close>

definition float_literal :: "int \<Rightarrow> int \<Rightarrow> double" where
  "float_literal p q = round_ratio p q"

fun float_mul :: "double \<Rightarrow> double \<Rightarrow> double" where
  "float_mul (Finite m1 e1) (Finite m2 e2) =
     (if 0 \<le> e1 + e2 then round_ratio (m1 * m2 * 2 ^ nat (e1 + e2)) 1
      else round_ratio (m1 * m2) (2 ^ nat (- (e1 + e2))))"
| "float_mul (Finite m e) (Infinite s) = (if m = 0 then NaN else Infinite (s \<noteq> (m < 0)))"
| "float_mul (Infinite s) (Finite m e) = (if m = 0 then NaN else Infinite (s \<noteq> (m < 0)))"
| "float_mul (Infinite s) (Infinite s') = Infinite (s \<noteq> s')"
| "float_mul NaN d = NaN"
| "float_mul (Finite m e) NaN = NaN"
| "float_mul (Infinite s) NaN = NaN"

subsection \<open>Numbers: \<open>int\<close> and \<open>float\<close>\<close>

datatype pynum = PInt int | PFloat double

text \<open>The conversion of an \<open>int\<close> operand to \<open>float\<close> in mixed arithmetic rounds to the
  nearest double and raises \<open>OverflowError\<close> beyond the range of the doubles.\<close>

definition float_of_int :: "int \<Rightarrow> error + double" where
  "float_of_int i =
     (case round_ratio i 1 of
        Finite m e \<Rightarrow> Inr (Finite m e)
      | Infinite s \<Rightarrow> Inl OverflowError
      | NaN \<Rightarrow> Inl OverflowError)"

text \<open>Python's \<open>*\<close> on numbers: exact on two ints, floating-point otherwise.\<close>

fun py_mul :: "pynum \<Rightarrow> pynum \<Rightarrow> error + pynum" where
  "py_mul (PInt a) (PInt b) = Inr (PInt (a * b))"
| "py_mul (PFloat a) (PFloat b) = Inr (PFloat (float_mul a b))"
| "py_mul (PFloat a) (PInt b) = try_bind (float_of_int b) (\<lambda>b'. Inr (PFloat (float_mul a b')))"
| "py_mul (PInt a) (PFloat b) = try_bind (float_of_int a) (\<lambda>a'. Inr (PFloat (float_mul a' b)))"

fun num_value :: "pynum \<Rightarrow> rat option" where
  "num_value (PInt i) = Some (of_int i)"
| "num_value (PFloat d) = float_value d"

section \<open>The translator block between solvent extraction and leaching\<close>

text \<open>
  \<open>translator_SX_leaching.py\<close>, class \<open>TranslatorDataLeachingSX\<close>. The block has two
  state blocks, \<open>properties_in\<close> and \<open>properties_out\<close>, indexed by the time set of the
  flowsheet; both are made by \<open>super().build()\<close> from the two property packages and are
  given here by what the code reads of them: each offers \<open>flow_vol\<close> and an indexed
  variable \<open>conc_mass_comp\<close>, whose index set is the component list of its package.
\<close>

datatype quantity = flow_vol | conc_mass_comp string

datatype 't var = properties_in 't quantity | properties_out 't quantity

text \<open>Pyomo expressions, as far as \<open>build\<close> makes them: variables, numbers, units,
  products and quotients; a constraint is an equality of two expressions.\<close>

datatype 't expr =
    Var "'t var"
  | Num pynum
  | Unit string
  | Mul "'t expr" "'t expr"
  | Div "'t expr" "'t expr"

datatype 't constr = Eq "'t expr" "'t expr"

datatype 't index = At 't | At2 't string

datatype 't component =
    Constraint string string "('t index \<times> 't constr) list"
  | Set_component string "string list"

record translator_block =
  in_components :: "string list"
  out_components :: "string list"

text \<open>\<open>state.conc_mass_comp[i]\<close>: subscripting an indexed variable with a key outside its
  index set raises \<open>KeyError\<close>.\<close>

definition getitem :: "string list \<Rightarrow> (quantity \<Rightarrow> 't var) \<Rightarrow> string \<Rightarrow> error + 't expr" where
  "getitem comps state i =
     (if i \<in> set comps then Inr (Var (state (conc_mass_comp i))) else Inl (KeyError i))"

text \<open>A \<open>Constraint\<close> component declared on a block under construction is built at
  once: its rule is called at every index, in the order of the index set, and the first
  exception a rule raises leaves \<open>build\<close>.\<close>

fun construct :: "('i \<Rightarrow> error + 'c) \<Rightarrow> 'i list \<Rightarrow> error + ('i \<times> 'c) list" where
  "construct rule [] = Inr []"
| "construct rule (i # is) =
     try_bind (rule i) (\<lambda>c. try_bind (construct rule is) (\<lambda>cs. Inr ((i, c) # cs)))"

text \<open>The rules of the four constraints. Python evaluates the left operand of \<open>==\<close>
  first, so a missing downstream component is the one reported.\<close>

definition eq_flow_vol_rule :: "translator_block \<Rightarrow> 't \<Rightarrow> error + 't constr" where
  "eq_flow_vol_rule blk t =
     Inr (Eq (Var (properties_out t flow_vol)) (Var (properties_in t flow_vol)))"

definition metals :: "string list" where
  "metals = [''Al'', ''Ca'', ''Fe'', ''Sc'', ''Y'', ''La'', ''Ce'', ''Pr'', ''Nd'', ''Sm'', ''Gd'', ''Dy'']"

definition eq_conc_mass_metals :: "translator_block \<Rightarrow> 't \<times> string \<Rightarrow> error + 't constr" where
  "eq_conc_mass_metals blk ti =
     (case ti of (t, i) \<Rightarrow>
        try_bind (getitem (out_components blk) (properties_out t) i) (\<lambda>lhs.
        try_bind (getitem (in_components blk) (properties_in t) i) (\<lambda>rhs.
        Inr (Eq lhs rhs))))"

definition eq_conc_mass_water :: "translator_block \<Rightarrow> 't \<Rightarrow> error + 't constr" where
  "eq_conc_mass_water blk t =
     try_bind (getitem (out_components blk) (properties_out t) ''H2O'') (\<lambda>lhs.
     Inr (Eq lhs (Div (Mul (Num (PFloat (float_literal (10 ^ 6) 1))) (Unit ''mg'')) (Unit ''L''))))"

definition acids :: "string list" where
  "acids = [''H'', ''HSO4'', ''SO4'']"

definition eq_conc_mass_acids :: "translator_block \<Rightarrow> 't \<times> string \<Rightarrow> error + 't constr" where
  "eq_conc_mass_acids blk ti =
     (case ti of (t, i) \<Rightarrow>
        try_bind (getitem (out_components blk) (properties_out t) i) (\<lambda>lhs.
        Inr (Eq lhs (Div (Mul (Num (PFloat (float_literal 1 (10 ^ 10)))) (Unit ''mg'')) (Unit ''L'')))))"

definition at1 :: "('t \<times> 'c) list \<Rightarrow> ('t index \<times> 'c) list" where
  "at1 cs = map (\<lambda>(t, c). (At t, c)) cs"

definition at2 :: "(('t \<times> string) \<times> 'c) list \<Rightarrow> ('t index \<times> 'c) list" where
  "at2 cs = map (\<lambda>((t, i), c). (At2 t i, c)) cs"

text \<open>\<open>build\<close>, after \<open>super().build()\<close>: the components it adds to the block, in the
  order of declaration, over the time set \<open>time\<close> of the flowsheet. An index set of two
  sets is their product, the first varying slowest.\<close>

definition build :: "translator_block \<Rightarrow> 't list \<Rightarrow> error + 't component list" where
  "build blk time =
     try_bind (construct (eq_flow_vol_rule blk) time) (\<lambda>c1.
     try_bind (construct (eq_conc_mass_metals blk) (List.product time metals)) (\<lambda>c2.
     try_bind (construct (eq_conc_mass_water blk) time) (\<lambda>c3.
     try_bind (construct (eq_conc_mass_acids blk) (List.product time acids)) (\<lambda>c4.
     Inr [Constraint ''eq_flow_vol_rule'' ''Equality volumetric flow equation'' (at1 c1),
          Set_component ''metals'' metals,
          Constraint ''eq_conc_mass_metals'' ''Equality equation for metal components'' (at2 c2),
          Constraint ''eq_conc_mass_water'' ''Equality equation for water'' (at1 c3),
          Set_component ''acids'' acids,
          Constraint ''eq_conc_mass_acids'' ''Equality equation for acid components'' (at2 c4)]))))"

text \<open>Reading the built block: the constraint a named component holds at an index, all
  constraints of the block, and the variables of an expression.\<close>

fun constraint_at :: "'t component list \<Rightarrow> string \<Rightarrow> 't index \<Rightarrow> 't constr option" where
  "constraint_at [] n ix = None"
| "constraint_at (Constraint n' doc cs # rest) n ix =
     (if n' = n then map_of cs ix else constraint_at rest n ix)"
| "constraint_at (Set_component n' xs # rest) n ix = constraint_at rest n ix"

fun constraints_of :: "'t component list \<Rightarrow> 't constr list" where
  "constraints_of [] = []"
| "constraints_of (Constraint n doc cs # rest) = map snd cs @ constraints_of rest"
| "constraints_of (Set_component n xs # rest) = constraints_of rest"

fun vars_of :: "'t expr \<Rightarrow> 't var list" where
  "vars_of (Var v) = [v]"
| "vars_of (Num n) = []"
| "vars_of (Unit u) = []"
| "vars_of (Mul a b) = vars_of a @ vars_of b"
| "vars_of (Div a b) = vars_of a @ vars_of b"

fun lhs :: "'t constr \<Rightarrow> 't expr" where
  "lhs (Eq a b) = a"

fun rhs :: "'t constr \<Rightarrow> 't expr" where
  "rhs (Eq a b) = b"

fun downstream :: "'t var \<Rightarrow> bool" where
  "downstream (properties_out t q) = True"
| "downstream (properties_in t q) = False"

fun quantity_of :: "'t var \<Rightarrow> quantity" where
  "quantity_of (properties_in t q) = q"
| "quantity_of (properties_out t q) = q"

text \<open>\<open>mentions q c\<close>: the quantity \<open>q\<close>, of either state block at any time, occurs in
  the constraint \<open>c\<close>.\<close>

definition mentions :: "quantity \<Rightarrow> 't constr \<Rightarrow> bool" where
  "mentions q c = (q \<in> set (map quantity_of (vars_of (lhs c) @ vars_of (rhs c))))"

subsection \<open>Initialization of the translator block\<close>

text \<open>
  \<open>initialize_build\<close> calls into the state blocks, the solver and the logger. Those are
  outside the module, so they are parameters: an environment gives, for each call, what
  it returns and how it changes the model \<open>'m\<close>. \<open>'f\<close> is what
  \<open>properties_in.initialize(..., hold_state=True)\<close> returns (the flags that record what it
  fixed), \<open>'r\<close> the results object of the solver. \<open>opt.solve\<close> either returns a
  results object or raises (no executable, a solver that did not exit normally, a
  result that cannot be loaded); either way it leaves the model as the solver left it,
  and \<open>initialize_build\<close> has no handler, so the exception leaves it at once. The calls
  into the state blocks and the logger are taken to return. The
  keyword arguments \<open>state_args_in\<close>, \<open>state_args_out\<close>, \<open>outlvl\<close>, \<open>solver\<close> and \<open>optarg\<close>
  are handed on unchanged and decide no branch.
\<close>

record ('m, 'f, 'r) unit_env =
  properties_in_initialize :: "'m \<Rightarrow> 'f \<times> 'm"
  properties_out_initialize :: "'m \<Rightarrow> 'm"
  degrees_of_freedom :: "'m \<Rightarrow> int"
  opt_solve :: "'m \<Rightarrow> (error + 'r) \<times> 'm"
  properties_in_release_state :: "'f \<Rightarrow> 'm \<Rightarrow> 'm"
  check_optimal_termination :: "'r \<Rightarrow> bool"
  condition :: "'r \<Rightarrow> string"

text \<open>The calls \<open>initialize_build\<close> makes, in the order it makes them. The argument of
  \<open>Properties_in_initialize\<close> is \<open>hold_state\<close>.\<close>

datatype call =
    Get_solver
  | Properties_in_initialize bool
  | Properties_out_initialize
  | Degrees_of_freedom
  | Solve
  | Properties_in_release_state
  | Log_info string

record 'm outcome =
  result :: "error + unit"
  block :: 'm
  calls :: "call list"

text \<open>\<open>str\<close> of an \<open>int\<close>, as an f-string formats it.\<close>

fun str_nat :: "nat \<Rightarrow> string" where
  "str_nat n =
     (if n < 10 then [''0123456789'' ! n]
      else str_nat (n div 10) @ [''0123456789'' ! (n mod 10)])"

definition str_int :: "int \<Rightarrow> string" where
  "str_int i = (if i < 0 then CHR ''-'' # str_nat (nat (- i)) else str_nat (nat i))"

definition initialize_build :: "('m, 'f, 'r) unit_env \<Rightarrow> string \<Rightarrow> 'm \<Rightarrow> 'm outcome" where
  "initialize_build env name m0 =
     (let (flags, m1) = properties_in_initialize env m0;
          m2 = properties_out_initialize env m1;
          cs = [Get_solver, Properties_in_initialize True, Properties_out_initialize,
                Degrees_of_freedom]
      in if degrees_of_freedom env m2 \<noteq> 0 then
           \<lparr>result = Inl (Exception (name @
                '' degrees of freedom were not 0 at the beginning of initialization. DoF = '' @
                str_int (degrees_of_freedom env m2))),
            block = m2,
            calls = cs @ [Degrees_of_freedom]\<rparr>
         else
           (let (solved, m3) = opt_solve env m2 in
            case solved of
              Inl e \<Rightarrow> \<lparr>result = Inl e, block = m3, calls = cs @ [Solve]\<rparr>
            | Inr res \<Rightarrow>
                (let m4 = properties_in_release_state env flags m3;
                     cs' = cs @ [Solve, Properties_in_release_state,
                                 Log_info (''Initialization Complete: '' @ condition env res)]
                 in if \<not> check_optimal_termination env res then
                      \<lparr>result = Inl (InitializationError (name @
                           '' failed to initialize successfully. Please check the output logs for more information.'')),
                       block = m4,
                       calls = cs'\<rparr>
                    else \<lparr>result = Inr (), block = m4, calls = cs'\<rparr>)))"

text \<open>An environment for examples. The model is one bit, whether the inlet state
  variables are fixed: initializing with \<open>hold_state=True\<close> fixes them, releasing frees
  them. The block has \<open>d\<close> degrees of freedom and the solver returns, ending optimal
  iff \<open>ok\<close>; in \<open>raising_unit_env\<close> the degrees of freedom are zero and the solver raises.\<close>

definition example_unit_env :: "int \<Rightarrow> bool \<Rightarrow> (bool, unit, bool) unit_env" where
  "example_unit_env d ok =
     \<lparr>properties_in_initialize = (\<lambda>m. ((), True)),
      properties_out_initialize = (\<lambda>m. m),
      degrees_of_freedom = (\<lambda>m. d),
      opt_solve = (\<lambda>m. (Inr ok, m)),
      properties_in_release_state = (\<lambda>f m. False),
      check_optimal_termination = (\<lambda>r. r),
      condition = (\<lambda>r. if r then ''optimal - Optimal Solution Found'' else ''infeasible - Converged to a locally infeasible point'')\<rparr>"

definition raising_unit_env :: "(bool, unit, bool) unit_env" where
  "raising_unit_env =
     (example_unit_env 0 True)
       \<lparr>opt_solve := (\<lambda>m. (Inl (ApplicationError ''Solver (ipopt) did not exit normally''), m))\<rparr>"

section \<open>The driver of the diafiltration flowsheet\<close>

text \<open>
  \<open>solve_diafiltration.py\<close>, function \<open>main\<close>. The keyword arguments of
  \<open>DiafiltrationModel\<close> are a record; a dict literal is the list of its items in order.
\<close>

record config =
  NS :: int
  NT :: int
  solutes :: "string list"
  flux :: pynum
  sieving_coefficient :: "(string \<times> pynum) list"
  feed :: "(string \<times> pynum) list"
  diafiltrate :: "(string \<times> pynum) list"
  precipitate :: bool
  precipitate_yield :: "(string \<times> (string \<times> pynum) list) list"

text \<open>
  The flowsheet class, the solver and the reporting functions are outside the module
  and are parameters, as is the builtin \<open>int\<close>. \<open>'df\<close> is the \<open>DiafiltrationModel\<close>
  object, \<open>'m\<close> the Pyomo model, \<open>'r\<close> the results object of the solver. \<open>model_dof\<close>
  (the degrees of freedom of a model) and \<open>optimal\<close> (whether a result is an optimal
  termination) are what a caller could ask of them; \<open>main\<close> calls neither.
\<close>

record ('df, 'm, 'r) flowsheet_env =
  int_of_str :: "string \<Rightarrow> error + int"
  new_model :: "config \<Rightarrow> 'df"
  build_flowsheet :: "'df \<Rightarrow> string \<Rightarrow> 'm"
  initialize :: "'df \<Rightarrow> 'm \<Rightarrow> string \<Rightarrow> bool \<Rightarrow> 'm"
  unfix_dof :: "'df \<Rightarrow> 'm \<Rightarrow> string \<Rightarrow> bool \<Rightarrow> 'm"
  precipitator_V_fix :: "string \<Rightarrow> pynum \<Rightarrow> 'm \<Rightarrow> 'm"
  set_R :: "pynum \<Rightarrow> 'm \<Rightarrow> 'm"
  solver_solve :: "'m \<Rightarrow> 'r \<times> 'm"
  model_dof :: "'m \<Rightarrow> int"
  optimal :: "'r \<Rightarrow> bool"

text \<open>The calls \<open>main\<close> makes. \<open>Initialize\<close> and \<open>Unfix_dof\<close> carry \<open>mixing\<close> and
  \<open>precipitate\<close>, \<open>Solver_solve\<close> the model it is given and \<open>tee\<close>.\<close>

datatype 'm main_call =
    DiafiltrationModel config
  | Build_flowsheet string
  | Initialize string bool
  | Unfix_dof string bool
  | Precipitator_V_fix string pynum
  | Report_statistics 'm
  | Set_R pynum
  | SolverFactory string
  | Solver_solve 'm bool
  | Display string
  | Report_values 'm

record 'm run =
  returned :: "error + unit"
  trace :: "'m main_call list"

text \<open>\<open>xs[i]\<close> for \<open>i \<ge> 0\<close>: \<open>IndexError\<close> past the end.\<close>

definition subscript :: "'a list \<Rightarrow> nat \<Rightarrow> error + 'a" where
  "subscript xs i = (if i < length xs then Inr (xs ! i) else Inl IndexError)"

text \<open>Lines 20 to 23: \<open>args[1:]\<close> drops the program name; then the three arguments are
  read in order, the second and third through \<open>int\<close>.\<close>

definition collect_arguments ::
  "('df, 'm, 'r) flowsheet_env \<Rightarrow> string list \<Rightarrow> error + (string \<times> int \<times> int)" where
  "collect_arguments env argv =
     (let args = drop 1 argv in
      try_bind (subscript args 0) (\<lambda>mix_style.
      try_bind (subscript args 1) (\<lambda>a1.
      try_bind (int_of_str env a1) (\<lambda>num_s.
      try_bind (subscript args 2) (\<lambda>a2.
      try_bind (int_of_str env a2) (\<lambda>num_t.
      Inr (mix_style, num_s, num_t)))))))"

text \<open>Lines 26 to 56: the parameter values and the keyword arguments of the model.\<close>

definition model_arguments :: "int \<Rightarrow> int \<Rightarrow> error + config" where
  "model_arguments num_s num_t =
     try_bind (py_mul (PFloat (float_literal 17 10)) (PInt 100)) (\<lambda>feed_Li.
     try_bind (py_mul (PInt 17) (PInt 100)) (\<lambda>feed_Co.
     try_bind (py_mul (PFloat (float_literal 1 10)) (PInt 30)) (\<lambda>diaf_Li.
     try_bind (py_mul (PFloat (float_literal 2 10)) (PInt 30)) (\<lambda>diaf_Co.
     Inr \<lparr>NS = num_s,
          NT = num_t,
          solutes = [''Li'', ''Co''],
          flux = PFloat (float_literal 1 10),
          sieving_coefficient =
            [(''Li'', PFloat (float_literal 13 10)), (''Co'', PFloat (float_literal 5 10))],
          feed = [(''solvent'', PInt 100), (''Li'', feed_Li), (''Co'', feed_Co)],
          diafiltrate = [(''solvent'', PInt 30), (''Li'', diaf_Li), (''Co'', diaf_Co)],
          precipitate = True,
          precipitate_yield =
            [(''permeate'',
                [(''Li'', PFloat (float_literal 81 100)), (''Co'', PFloat (float_literal 1 100))]),
             (''retentate'',
                [(''Li'', PFloat (float_literal 20 100)), (''Co'', PFloat (float_literal 89 100))])]\<rparr>))))"

text \<open>Lines 43 to 63: the model is made, built, initialized and released, and the two
  precipitator volumes are fixed. Every call after \<open>build_flowsheet\<close> changes the one
  model \<open>m\<close>.\<close>

definition prepare_model :: "('df, 'm, 'r) flowsheet_env \<Rightarrow> config \<Rightarrow> string \<Rightarrow> 'm" where
  "prepare_model env cfg mixing =
     (let prec = True;
          df = new_model env cfg;
          m = build_flowsheet env df mixing;
          m1 = initialize env df m mixing prec;
          m2 = unfix_dof env df m1 mixing prec;
          m3 = precipitator_V_fix env ''retentate'' (PInt 500) m2
      in precipitator_V_fix env ''permeate'' (PInt 500) m3)"

text \<open>Lines 43 to 78, with the calls in order: after the model is prepared, its
  statistics are reported, \<open>m.R\<close> is set and the solver run; the result of the solver is
  bound to a name and not read; then the two recoveries and the flows are printed and
  \<open>main\<close> returns \<open>None\<close>.\<close>

definition solve_flowsheet ::
  "('df, 'm, 'r) flowsheet_env \<Rightarrow> config \<Rightarrow> string \<Rightarrow> 'm run" where
  "solve_flowsheet env cfg mixing =
     (let prec = True;
          m4 = prepare_model env cfg mixing;
          m5 = set_R env (PFloat (float_literal 8 10)) m4;
          (res, m6) = solver_solve env m5
      in \<lparr>returned = Inr (),
          trace = [DiafiltrationModel cfg, Build_flowsheet mixing, Initialize mixing prec,
                   Unfix_dof mixing prec,
                   Precipitator_V_fix ''retentate'' (PInt 500),
                   Precipitator_V_fix ''permeate'' (PInt 500),
                   Report_statistics m4,
                   Set_R (PFloat (float_literal 8 10)),
                   SolverFactory ''ipopt'',
                   Solver_solve m5 True,
                   Display ''prec_perc_co'',
                   Display ''prec_perc_li'',
                   Report_values m6]\<rparr>)"

definition main :: "('df, 'm, 'r) flowsheet_env \<Rightarrow> string list \<Rightarrow> 'm run" where
  "main env argv =
     (case collect_arguments env argv of
        Inl e \<Rightarrow> \<lparr>returned = Inl e, trace = []\<rparr>
      | Inr (mix_style, num_s, num_t) \<Rightarrow>
          (case model_arguments num_s num_t of
             Inl e \<Rightarrow> \<lparr>returned = Inl e, trace = []\<rparr>
           | Inr cfg \<Rightarrow> solve_flowsheet env cfg mix_style))"

fun is_solve :: "'m main_call \<Rightarrow> bool" where
  "is_solve (Solver_solve m tee) = True"
| "is_solve c = False"

text \<open>An environment for examples. \<open>decimal\<close> reads an optional sign and ASCII digits,
  where \<open>int\<close> reads the same. The model is its number of degrees of freedom: the
  flowsheet is built with six, fixing a volume takes one, and the solver ends optimal
  iff none is left.\<close>

definition digit_value :: "char \<Rightarrow> nat option" where
  "digit_value c =
     (let n = (of_char c :: nat) in if 48 \<le> n \<and> n \<le> 57 then Some (n - 48) else None)"

fun digits_value :: "nat \<Rightarrow> string \<Rightarrow> nat option" where
  "digits_value acc [] = Some acc"
| "digits_value acc (c # cs) =
     (case digit_value c of None \<Rightarrow> None | Some d \<Rightarrow> digits_value (10 * acc + d) cs)"

definition decimal :: "string \<Rightarrow> error + int" where
  "decimal s =
     (let body = (if s \<noteq> [] \<and> (hd s = CHR ''-'' \<or> hd s = CHR ''+'') then tl s else s) in
      if body = [] then Inl (ValueError s)
      else (case digits_value 0 body of
              None \<Rightarrow> Inl (ValueError s)
            | Some n \<Rightarrow> Inr (if hd s = CHR ''-'' then - int n else int n)))"

definition example_env :: "(config, int, bool) flowsheet_env" where
  "example_env =
     \<lparr>int_of_str = decimal,
      new_model = (\<lambda>cfg. cfg),
      build_flowsheet = (\<lambda>df mixing. 6),
      initialize = (\<lambda>df m mixing prec. m),
      unfix_dof = (\<lambda>df m mixing prec. m),
      precipitator_V_fix = (\<lambda>k v m. m - 1),
      set_R = (\<lambda>v m. m),
      solver_solve = (\<lambda>m. (m = 0, m)),
      model_dof = (\<lambda>m. m),
      optimal = (\<lambda>r. r)\<rparr>"

section \<open>Properties of the translator block\<close>

lemma try_bind_Inr_iff: "try_bind m f = Inr y \<longleftrightarrow> (\<exists>x. m = Inr x \<and> f x = Inr y)"
  by (cases m) (simp_all add: try_bind_def)

lemma try_bind_Inl_iff: "try_bind m f = Inl e \<longleftrightarrow> m = Inl e \<or> (\<exists>x. m = Inr x \<and> f x = Inl e)"
  by (cases m) (simp_all add: try_bind_def)

lemma construct_Inr_map:
  "construct f xs = Inr ys \<Longrightarrow> (\<And>x c. x \<in> set xs \<Longrightarrow> f x = Inr c \<Longrightarrow> c = g x)
     \<Longrightarrow> ys = map (\<lambda>x. (x, g x)) xs"
proof (induction xs arbitrary: ys)
  case Nil
  then show ?case by simp
next
  case (Cons x xs)
  from Cons.prems(1) obtain c cs where c: "f x = Inr c" and cs: "construct f xs = Inr cs"
    and ys: "ys = (x, c) # cs"
    by (auto simp: try_bind_Inr_iff)
  have "cs = map (\<lambda>x. (x, g x)) xs"
    using Cons.IH [OF cs] Cons.prems(2) by simp
  moreover have "c = g x" using Cons.prems(2) c by simp
  ultimately show ?case using ys by simp
qed

lemma construct_InrD: "construct f xs = Inr ys \<Longrightarrow> x \<in> set xs \<Longrightarrow> \<exists>c. f x = Inr c"
  by (induction xs arbitrary: ys) (auto simp: try_bind_Inr_iff)

lemma construct_Inl: "construct f xs = Inl e \<Longrightarrow> \<exists>x\<in>set xs. f x = Inl e"
  by (induction xs) (auto simp: try_bind_Inl_iff)

lemma construct_total:
  "(\<And>x. x \<in> set xs \<Longrightarrow> f x = Inr (g x)) \<Longrightarrow> construct f xs = Inr (map (\<lambda>x. (x, g x)) xs)"
  by (induction xs) (simp_all add: try_bind_def)

lemma getitem_Inr: "getitem comps st i = Inr e \<longleftrightarrow> i \<in> set comps \<and> e = Var (st (conc_mass_comp i))"
  by (auto simp: getitem_def)

lemma getitem_Inl: "getitem comps st i = Inl e \<longleftrightarrow> i \<notin> set comps \<and> e = KeyError i"
  by (auto simp: getitem_def)

lemma build_Inr_components:
  assumes "build blk time = Inr comps"
  shows "comps =
    [Constraint ''eq_flow_vol_rule'' ''Equality volumetric flow equation''
       (map (\<lambda>t. (At t, Eq (Var (properties_out t flow_vol)) (Var (properties_in t flow_vol)))) time),
     Set_component ''metals'' metals,
     Constraint ''eq_conc_mass_metals'' ''Equality equation for metal components''
       (map (\<lambda>(t, i). (At2 t i, Eq (Var (properties_out t (conc_mass_comp i)))
                                   (Var (properties_in t (conc_mass_comp i)))))
            (List.product time metals)),
     Constraint ''eq_conc_mass_water'' ''Equality equation for water''
       (map (\<lambda>t. (At t, Eq (Var (properties_out t (conc_mass_comp ''H2O'')))
          (Div (Mul (Num (PFloat (float_literal (10 ^ 6) 1))) (Unit ''mg'')) (Unit ''L'')))) time),
     Set_component ''acids'' acids,
     Constraint ''eq_conc_mass_acids'' ''Equality equation for acid components''
       (map (\<lambda>(t, i). (At2 t i, Eq (Var (properties_out t (conc_mass_comp i)))
          (Div (Mul (Num (PFloat (float_literal 1 (10 ^ 10)))) (Unit ''mg'')) (Unit ''L''))))
            (List.product time acids))]"
proof -
  from assms obtain c1 c2 c3 c4 where
    c1: "construct (eq_flow_vol_rule blk) time = Inr c1" and
    c2: "construct (eq_conc_mass_metals blk) (List.product time metals) = Inr c2" and
    c3: "construct (eq_conc_mass_water blk) time = Inr c3" and
    c4: "construct (eq_conc_mass_acids blk) (List.product time acids) = Inr c4" and
    comps: "comps = [Constraint ''eq_flow_vol_rule'' ''Equality volumetric flow equation'' (at1 c1),
          Set_component ''metals'' metals,
          Constraint ''eq_conc_mass_metals'' ''Equality equation for metal components'' (at2 c2),
          Constraint ''eq_conc_mass_water'' ''Equality equation for water'' (at1 c3),
          Set_component ''acids'' acids,
          Constraint ''eq_conc_mass_acids'' ''Equality equation for acid components'' (at2 c4)]"
    unfolding build_def try_bind_Inr_iff by blast
  have e1: "c1 = map (\<lambda>t. (t, Eq (Var (properties_out t flow_vol)) (Var (properties_in t flow_vol)))) time"
    by (rule construct_Inr_map [OF c1]) (auto simp: eq_flow_vol_rule_def)
  have e2: "c2 = map (\<lambda>ti. (ti, Eq (Var (properties_out (fst ti) (conc_mass_comp (snd ti))))
                                   (Var (properties_in (fst ti) (conc_mass_comp (snd ti))))))
            (List.product time metals)"
    by (rule construct_Inr_map [OF c2])
      (auto simp: eq_conc_mass_metals_def try_bind_Inr_iff getitem_Inr)
  have e3: "c3 = map (\<lambda>t. (t, Eq (Var (properties_out t (conc_mass_comp ''H2O'')))
          (Div (Mul (Num (PFloat (float_literal (10 ^ 6) 1))) (Unit ''mg'')) (Unit ''L'')))) time"
    by (rule construct_Inr_map [OF c3])
      (auto simp: eq_conc_mass_water_def try_bind_Inr_iff getitem_Inr)
  have e4: "c4 = map (\<lambda>ti. (ti, Eq (Var (properties_out (fst ti) (conc_mass_comp (snd ti))))
          (Div (Mul (Num (PFloat (float_literal 1 (10 ^ 10)))) (Unit ''mg'')) (Unit ''L''))))
            (List.product time acids)"
    by (rule construct_Inr_map [OF c4])
      (auto simp: eq_conc_mass_acids_def try_bind_Inr_iff getitem_Inr)
  show ?thesis
    unfolding comps e1 e2 e3 e4 at1_def at2_def
    by (simp add: case_prod_unfold comp_def)
qed

lemma map_of_keyed:
  "x \<in> set xs \<Longrightarrow> inj k \<Longrightarrow> map_of (map (\<lambda>x. (k x, g x)) xs) (k x) = Some (g x)"
  by (induction xs) (auto dest: injD)

lemma inj_At: "inj At"
  by (simp add: inj_def)

lemma inj_At2: "inj (\<lambda>(t, i). At2 t i)"
  by (auto simp: inj_def)

lemma map_of_At:
  "t \<in> set time \<Longrightarrow> map_of (map (\<lambda>t. (At t, g t)) time) (At t) = Some (g t)"
  by (rule map_of_keyed [OF _ inj_At])

lemma map_of_At2:
  assumes "t \<in> set time" "i \<in> set xs"
  shows "map_of (map (\<lambda>(t, i). (At2 t i, g t i)) (List.product time xs)) (At2 t i) = Some (g t i)"
proof -
  have "(t, i) \<in> set (List.product time xs)" using assms by simp
  from map_of_keyed [OF this inj_At2, of "\<lambda>(t, i). g t i"]
  show ?thesis by (simp add: case_prod_unfold)
qed

lemma filter_distinct_key:
  "distinct (map f xs) \<Longrightarrow> x \<in> set xs \<Longrightarrow> filter (\<lambda>y. f y = f x) xs = [x]"
proof (induction xs)
  case Nil
  then show ?case by simp
next
  case (Cons a xs)
  show ?case
  proof (cases "a = x")
    case True
    have "filter (\<lambda>y. f y = f x) xs = []"
      using Cons.prems(1) True by (force simp: filter_empty_conv image_iff)
    then show ?thesis using True by simp
  next
    case False
    then have "x \<in> set xs" using Cons.prems(2) by simp
    moreover have "f a \<noteq> f x" using Cons.prems(1) \<open>x \<in> set xs\<close> by auto
    ultimately show ?thesis using Cons by simp
  qed
qed

lemma metals_distinct: "distinct metals"
  by (simp add: metals_def)

lemma acids_distinct: "distinct acids"
  by (simp add: acids_def)

lemma metals_acids_disjoint: "set metals \<inter> set acids = {}" "''H2O'' \<notin> set metals" "''H2O'' \<notin> set acids"
  by (simp_all add: metals_def acids_def)

lemma constraints_of_build:
  assumes "build blk time = Inr comps"
  shows "constraints_of comps =
     map (\<lambda>t. Eq (Var (properties_out t flow_vol)) (Var (properties_in t flow_vol))) time @
     map (\<lambda>(t, i). Eq (Var (properties_out t (conc_mass_comp i)))
                       (Var (properties_in t (conc_mass_comp i)))) (List.product time metals) @
     map (\<lambda>t. Eq (Var (properties_out t (conc_mass_comp ''H2O'')))
          (Div (Mul (Num (PFloat (float_literal (10 ^ 6) 1))) (Unit ''mg'')) (Unit ''L''))) time @
     map (\<lambda>(t, i). Eq (Var (properties_out t (conc_mass_comp i)))
          (Div (Mul (Num (PFloat (float_literal 1 (10 ^ 10)))) (Unit ''mg'')) (Unit ''L'')))
            (List.product time acids)"
  unfolding build_Inr_components [OF assms]
  by (simp add: comp_def case_prod_unfold)

lemma lhs_of_build:
  assumes "build blk time = Inr comps"
  shows "map lhs (constraints_of comps) =
     map (\<lambda>t. Var (properties_out t flow_vol)) time @
     map (\<lambda>(t, i). Var (properties_out t (conc_mass_comp i))) (List.product time metals) @
     map (\<lambda>t. Var (properties_out t (conc_mass_comp ''H2O''))) time @
     map (\<lambda>(t, i). Var (properties_out t (conc_mass_comp i))) (List.product time acids)"
  unfolding constraints_of_build [OF assms]
  by (simp add: comp_def case_prod_unfold)

lemma distinct_lhs_of_build:
  assumes "build blk time = Inr comps" "distinct time"
  shows "distinct (map lhs (constraints_of comps))"
proof -
  have d1: "distinct (map (\<lambda>t. Var (properties_out t flow_vol)) time)" for q
    using assms(2) by (simp add: distinct_map inj_on_def)
  have d3: "distinct (map (\<lambda>t. Var (properties_out t (conc_mass_comp ''H2O''))) time)"
    using assms(2) by (simp add: distinct_map inj_on_def)
  have d2: "distinct (map (\<lambda>(t, i). Var (properties_out t (conc_mass_comp i))) (List.product time xs))"
    if "distinct xs" for xs :: "string list"
    using assms(2) that by (auto simp: distinct_map inj_on_def distinct_product)
  show ?thesis
    unfolding lhs_of_build [OF assms(1)]
    using d1 d3 d2 [OF metals_distinct] d2 [OF acids_distinct] metals_acids_disjoint
    by (auto simp: distinct_append)
qed

lemmas float_eval = float_literal_def round_ratio_def round_pos_def ilog2_def round_half_even_def
  compute_floorlog Let_def float_of_int_def try_bind_def negate_def

lemma float_literal_1e6: "float_value (float_literal (10 ^ 6) 1) = Some (10 ^ 6)"
  by (simp add: float_eval)

lemma constraint_at_build:
  assumes "build blk time = Inr comps" "t \<in> set time"
  shows "constraint_at comps ''eq_flow_vol_rule'' (At t) =
           Some (Eq (Var (properties_out t flow_vol)) (Var (properties_in t flow_vol)))"
    and "i \<in> set metals \<Longrightarrow> constraint_at comps ''eq_conc_mass_metals'' (At2 t i) =
           Some (Eq (Var (properties_out t (conc_mass_comp i))) (Var (properties_in t (conc_mass_comp i))))"
    and "constraint_at comps ''eq_conc_mass_water'' (At t) =
           Some (Eq (Var (properties_out t (conc_mass_comp ''H2O'')))
                    (Div (Mul (Num (PFloat (float_literal (10 ^ 6) 1))) (Unit ''mg'')) (Unit ''L'')))"
    and "i \<in> set acids \<Longrightarrow> constraint_at comps ''eq_conc_mass_acids'' (At2 t i) =
           Some (Eq (Var (properties_out t (conc_mass_comp i)))
                    (Div (Mul (Num (PFloat (float_literal 1 (10 ^ 10)))) (Unit ''mg'')) (Unit ''L'')))"
  unfolding build_Inr_components [OF assms(1)]
  using assms(2) by (simp_all add: map_of_At map_of_At2)

lemma build_InrD:
  assumes "build blk time = Inr comps" "t \<in> set time"
  shows "set metals \<subseteq> set (in_components blk)"
    and "set metals \<subseteq> set (out_components blk)"
    and "''H2O'' \<in> set (out_components blk)"
    and "set acids \<subseteq> set (out_components blk)"
proof -
  from assms(1) obtain c1 c2 c3 c4 where
    c2: "construct (eq_conc_mass_metals blk) (List.product time metals) = Inr c2" and
    c3: "construct (eq_conc_mass_water blk) time = Inr c3" and
    c4: "construct (eq_conc_mass_acids blk) (List.product time acids) = Inr c4"
    unfolding build_def try_bind_Inr_iff by blast
  have m: "i \<in> set (out_components blk) \<and> i \<in> set (in_components blk)" if "i \<in> set metals" for i
  proof -
    have "(t, i) \<in> set (List.product time metals)" using assms(2) that by simp
    from construct_InrD [OF c2 this] show ?thesis
      by (auto simp: eq_conc_mass_metals_def try_bind_Inr_iff getitem_Inr)
  qed
  show "set metals \<subseteq> set (in_components blk)" "set metals \<subseteq> set (out_components blk)"
    using m by auto
  from construct_InrD [OF c3 assms(2)] show "''H2O'' \<in> set (out_components blk)"
    by (auto simp: eq_conc_mass_water_def try_bind_Inr_iff getitem_Inr)
  show "set acids \<subseteq> set (out_components blk)"
  proof
    fix i assume "i \<in> set acids"
    then have "(t, i) \<in> set (List.product time acids)" using assms(2) by simp
    from construct_InrD [OF c4 this] show "i \<in> set (out_components blk)"
      by (auto simp: eq_conc_mass_acids_def try_bind_Inr_iff getitem_Inr)
  qed
qed

lemma build_Inl_KeyError:
  assumes "build blk time = Inl e"
  shows "\<exists>k. e = KeyError k \<and> (k \<notin> set (in_components blk) \<or> k \<notin> set (out_components blk))"
proof -
  have "(\<exists>x \<in> set time. eq_flow_vol_rule blk x = Inl e)
      \<or> (\<exists>x \<in> set (List.product time metals). eq_conc_mass_metals blk x = Inl e)
      \<or> (\<exists>x \<in> set time. eq_conc_mass_water blk x = Inl e)
      \<or> (\<exists>x \<in> set (List.product time acids). eq_conc_mass_acids blk x = Inl e)"
    using assms unfolding build_def try_bind_Inl_iff
    by (blast dest: construct_Inl)
  then show ?thesis
    by (auto simp: eq_flow_vol_rule_def eq_conc_mass_metals_def eq_conc_mass_water_def
        eq_conc_mass_acids_def try_bind_Inl_iff getitem_Inl getitem_Inr)
qed

lemma build_total:
  assumes "set metals \<subseteq> set (in_components blk)"
    and "set metals \<subseteq> set (out_components blk)"
    and "''H2O'' \<in> set (out_components blk)"
    and "set acids \<subseteq> set (out_components blk)"
  shows "\<exists>comps. build blk time = Inr comps"
proof (cases "build blk time")
  case (Inl e)
  from assms obtain c1 c2 c3 c4 where
    "construct (eq_flow_vol_rule blk) time = Inr c1"
    "construct (eq_conc_mass_metals blk) (List.product time metals) = Inr c2"
    "construct (eq_conc_mass_water blk) time = Inr c3"
    "construct (eq_conc_mass_acids blk) (List.product time acids) = Inr c4"
    using construct_total [of time "eq_flow_vol_rule blk"
        "\<lambda>t. Eq (Var (properties_out t flow_vol)) (Var (properties_in t flow_vol))"]
      construct_total [of "List.product time metals" "eq_conc_mass_metals blk"
        "\<lambda>ti. Eq (Var (properties_out (fst ti) (conc_mass_comp (snd ti))))
                 (Var (properties_in (fst ti) (conc_mass_comp (snd ti))))"]
      construct_total [of time "eq_conc_mass_water blk"
        "\<lambda>t. Eq (Var (properties_out t (conc_mass_comp ''H2O'')))
          (Div (Mul (Num (PFloat (float_literal (10 ^ 6) 1))) (Unit ''mg'')) (Unit ''L''))"]
      construct_total [of "List.product time acids" "eq_conc_mass_acids blk"
        "\<lambda>ti. Eq (Var (properties_out (fst ti) (conc_mass_comp (snd ti))))
          (Div (Mul (Num (PFloat (float_literal 1 (10 ^ 10)))) (Unit ''mg'')) (Unit ''L''))"]
    by (auto simp: eq_flow_vol_rule_def eq_conc_mass_metals_def eq_conc_mass_water_def
        eq_conc_mass_acids_def getitem_def try_bind_def subset_iff)
  then show ?thesis by (simp add: build_def try_bind_def)
next
  case (Inr comps)
  then show ?thesis by blast
qed

text \<open>
  Claim C1. At every time point of the flowsheet, the block built by \<open>build\<close> holds: for
  each of the twelve metals, the constraint that the downstream mass concentration
  equals the upstream one; for each of the acid species \<open>H\<close>, \<open>HSO4\<close> and \<open>SO4\<close>, the
  constraint that the downstream concentration equals \<open>1e-10 mg/L\<close>; and for water the
  constraint that the downstream concentration equals \<open>1e6 mg/L\<close>, a constraint in
  which no upstream variable occurs.
\<close>

theorem translator_concentration_constraints:
  assumes "build blk time = Inr comps" and "t \<in> set time"
  shows "(\<forall>i \<in> set [''Al'', ''Ca'', ''Fe'', ''Sc'', ''Y'', ''La'', ''Ce'', ''Pr'', ''Nd'', ''Sm'', ''Gd'', ''Dy''].
            constraint_at comps ''eq_conc_mass_metals'' (At2 t i) =
              Some (Eq (Var (properties_out t (conc_mass_comp i)))
                       (Var (properties_in t (conc_mass_comp i)))))
       \<and> (\<forall>i \<in> set [''H'', ''HSO4'', ''SO4''].
            constraint_at comps ''eq_conc_mass_acids'' (At2 t i) =
              Some (Eq (Var (properties_out t (conc_mass_comp i)))
                       (Div (Mul (Num (PFloat (float_literal 1 (10 ^ 10)))) (Unit ''mg'')) (Unit ''L''))))
       \<and> constraint_at comps ''eq_conc_mass_water'' (At t) =
              Some (Eq (Var (properties_out t (conc_mass_comp ''H2O'')))
                       (Div (Mul (Num (PFloat (float_literal (10 ^ 6) 1))) (Unit ''mg'')) (Unit ''L'')))
       \<and> float_value (float_literal (10 ^ 6) 1) = Some (10 ^ 6)
       \<and> (\<forall>c. constraint_at comps ''eq_conc_mass_water'' (At t) = Some c \<longrightarrow>
              filter (\<lambda>v. \<not> downstream v) (vars_of (lhs c) @ vars_of (rhs c)) = [])"
proof -
  have m: "set [''Al'', ''Ca'', ''Fe'', ''Sc'', ''Y'', ''La'', ''Ce'', ''Pr'', ''Nd'', ''Sm'', ''Gd'', ''Dy''] = set metals"
    by (simp add: metals_def)
  have a: "set [''H'', ''HSO4'', ''SO4''] = set acids"
    by (simp add: acids_def)
  note c = constraint_at_build [OF assms]
  have w: "\<forall>c. constraint_at comps ''eq_conc_mass_water'' (At t) = Some c \<longrightarrow>
              filter (\<lambda>v. \<not> downstream v) (vars_of (lhs c) @ vars_of (rhs c)) = []"
    unfolding c(3) by simp
  show ?thesis
    unfolding m a using c w float_literal_1e6 by blast
qed

theorem translator_concentration_constraints_witness:
  "\<exists>comps. build \<lparr>in_components = metals, out_components = metals @ ''H2O'' # acids\<rparr> [0 :: nat] = Inr comps
     \<and> constraint_at comps ''eq_conc_mass_metals'' (At2 0 ''Nd'') =
         Some (Eq (Var (properties_out 0 (conc_mass_comp ''Nd''))) (Var (properties_in 0 (conc_mass_comp ''Nd''))))
     \<and> constraint_at comps ''eq_conc_mass_acids'' (At2 0 ''HSO4'') =
         Some (Eq (Var (properties_out 0 (conc_mass_comp ''HSO4'')))
                  (Div (Mul (Num (PFloat (float_literal 1 (10 ^ 10)))) (Unit ''mg'')) (Unit ''L'')))
     \<and> constraint_at comps ''eq_conc_mass_water'' (At 0) =
         Some (Eq (Var (properties_out 0 (conc_mass_comp ''H2O'')))
                  (Div (Mul (Num (PFloat (float_literal (10 ^ 6) 1))) (Unit ''mg'')) (Unit ''L'')))"
proof -
  obtain comps where
    b: "build \<lparr>in_components = metals, out_components = metals @ ''H2O'' # acids\<rparr> [0 :: nat] = Inr comps"
    using build_total [of "\<lparr>in_components = metals, out_components = metals @ ''H2O'' # acids\<rparr>" "[0 :: nat]"]
    by auto
  have t: "(0 :: nat) \<in> set [0]" by simp
  from translator_concentration_constraints [OF b t] b show ?thesis
    by auto
qed

text \<open>
  Claim C6. Over a flowsheet with at least one time point, if a metal is missing from
  the component list of the upstream or of the downstream package, or water or an acid
  species from the downstream one, then \<open>build\<close> itself raises: the \<open>KeyError\<close> of the
  first subscript that fails, naming a component one of the two sides lacks. No block
  is built, so nothing is left to fail at solve time.
\<close>

theorem translator_build_missing_component:
  assumes "time \<noteq> []"
    and "(\<exists>i \<in> set metals. i \<notin> set (in_components blk) \<or> i \<notin> set (out_components blk))
       \<or> (\<exists>i \<in> set (''H2O'' # acids). i \<notin> set (out_components blk))"
  shows "\<exists>k. build blk time = Inl (KeyError k)
           \<and> (k \<notin> set (in_components blk) \<or> k \<notin> set (out_components blk))"
proof (cases "build blk time")
  case (Inl e)
  with build_Inl_KeyError [OF Inl] show ?thesis by auto
next
  case (Inr comps)
  from assms(1) obtain t where "t \<in> set time" by (cases time) auto
  from build_InrD [OF Inr this] assms(2) show ?thesis by auto
qed

theorem translator_build_missing_component_witness:
  "[0 :: nat] \<noteq> []
   \<and> (\<exists>k. build \<lparr>in_components = metals, out_components = ''H2O'' # acids\<rparr> [0 :: nat] = Inl (KeyError k)
          \<and> (k \<notin> set metals \<or> k \<notin> set (''H2O'' # acids)))"
proof -
  have t: "[0 :: nat] \<noteq> []" by simp
  have m: "(\<exists>i \<in> set metals. i \<notin> set (in_components \<lparr>in_components = metals, out_components = ''H2O'' # acids\<rparr>)
              \<or> i \<notin> set (out_components \<lparr>in_components = metals, out_components = ''H2O'' # acids\<rparr>))
       \<or> (\<exists>i \<in> set (''H2O'' # acids). i \<notin> set (out_components \<lparr>in_components = metals, out_components = ''H2O'' # acids\<rparr>))"
    by (simp add: metals_def acids_def)
  from translator_build_missing_component [OF t m] show ?thesis
    by simp
qed

lemma build_disjoint_example:
  "build \<lparr>in_components = metals, out_components = ''H2O'' # acids\<rparr> [0 :: nat] = Inl (KeyError ''Al'')"
  by (simp add: build_def try_bind_def eq_flow_vol_rule_def eq_conc_mass_metals_def
      getitem_def metals_def acids_def)

lemma mentions_simps:
  "mentions q (Eq (Var (properties_out t q')) (Var (properties_in t' q''))) \<longleftrightarrow> q = q' \<or> q = q''"
  "mentions q (Eq (Var (properties_out t q')) (Div (Mul (Num n) (Unit u)) (Unit u'))) \<longleftrightarrow> q = q'"
  by (auto simp: mentions_def)

lemma mentions_build:
  assumes "build blk time = Inr comps" and "c \<in> set (constraints_of comps)" and "mentions q c"
  shows "q \<in> set (flow_vol # map conc_mass_comp (metals @ ''H2O'' # acids))"
  using assms(2,3) unfolding constraints_of_build [OF assms(1)]
  by (auto simp: mentions_simps)

text \<open>
  Claim C7, as stated, fails: the rules of \<open>build\<close> range over its own lists, not over
  the components the two packages share. With chlorine in both packages \<open>build\<close>
  succeeds and no constraint mentions its concentration, upstream or downstream.
\<close>

theorem translator_shared_component_without_constraint_counterexample:
  "''Cl'' \<in> set (in_components \<lparr>in_components = metals @ [''Cl''],
                                  out_components = metals @ ''H2O'' # acids @ [''Cl'']\<rparr>)
   \<and> ''Cl'' \<in> set (out_components \<lparr>in_components = metals @ [''Cl''],
                                    out_components = metals @ ''H2O'' # acids @ [''Cl'']\<rparr>)
   \<and> \<not> isl (build \<lparr>in_components = metals @ [''Cl''],
                      out_components = metals @ ''H2O'' # acids @ [''Cl'']\<rparr> [0 :: nat])
   \<and> filter (mentions (conc_mass_comp ''Cl''))
        (constraints_of (projr (build \<lparr>in_components = metals @ [''Cl''],
                                        out_components = metals @ ''H2O'' # acids @ [''Cl'']\<rparr> [0 :: nat]))) = []
   \<and> length (constraints_of (projr (build \<lparr>in_components = metals @ [''Cl''],
                                        out_components = metals @ ''H2O'' # acids @ [''Cl'']\<rparr> [0 :: nat]))) = 17"
proof -
  obtain comps where
    b: "build \<lparr>in_components = metals @ [''Cl''],
               out_components = metals @ ''H2O'' # acids @ [''Cl'']\<rparr> [0 :: nat] = Inr comps"
    using build_total [of "\<lparr>in_components = metals @ [''Cl''],
               out_components = metals @ ''H2O'' # acids @ [''Cl'']\<rparr>" "[0 :: nat]"]
    by auto
  have "\<not> mentions (conc_mass_comp ''Cl'') c" if "c \<in> set (constraints_of comps)" for c
    using mentions_build [OF b that, of "conc_mass_comp ''Cl''"]
    by (auto simp: metals_def acids_def)
  then have f: "filter (mentions (conc_mass_comp ''Cl'')) (constraints_of comps) = []"
    by (simp add: filter_empty_conv)
  have l: "length (constraints_of comps) = 17"
    unfolding constraints_of_build [OF b] by (simp add: metals_def acids_def)
  show ?thesis
    unfolding b using f l by simp
qed

text \<open>
  Claim C7, amended. At every time point the block holds the constraint that the
  downstream volumetric flow equals the upstream one. The constraints are one for each
  quantity of the fixed lists of \<open>build\<close>, whatever the two packages share: for the flow
  and each of the twelve metals exactly one constraint has the downstream variable as
  its left-hand side, the equality with the upstream counterpart; for water and each
  acid species exactly one, the equality with a constant; and no constraint mentions
  any other quantity. Every constraint has a single downstream variable as its
  left-hand side and none on its right, no two have the same left-hand side, and there
  are seventeen per time point: as many as downstream variables they determine.
\<close>

theorem translator_one_constraint_per_listed_quantity:
  assumes "build blk time = Inr comps" and "distinct time" and "t \<in> set time"
  shows "constraint_at comps ''eq_flow_vol_rule'' (At t) =
           Some (Eq (Var (properties_out t flow_vol)) (Var (properties_in t flow_vol)))
       \<and> (\<forall>q \<in> set (flow_vol # map conc_mass_comp metals).
            filter (\<lambda>c. lhs c = Var (properties_out t q)) (constraints_of comps) =
              [Eq (Var (properties_out t q)) (Var (properties_in t q))])
       \<and> filter (\<lambda>c. lhs c = Var (properties_out t (conc_mass_comp ''H2O''))) (constraints_of comps) =
              [Eq (Var (properties_out t (conc_mass_comp ''H2O'')))
                  (Div (Mul (Num (PFloat (float_literal (10 ^ 6) 1))) (Unit ''mg'')) (Unit ''L''))]
       \<and> (\<forall>i \<in> set acids.
            filter (\<lambda>c. lhs c = Var (properties_out t (conc_mass_comp i))) (constraints_of comps) =
              [Eq (Var (properties_out t (conc_mass_comp i)))
                  (Div (Mul (Num (PFloat (float_literal 1 (10 ^ 10)))) (Unit ''mg'')) (Unit ''L''))])
       \<and> (\<forall>q. q \<notin> set (flow_vol # map conc_mass_comp (metals @ ''H2O'' # acids)) \<longrightarrow>
            filter (mentions q) (constraints_of comps) = [])
       \<and> (\<forall>c \<in> set (constraints_of comps).
            (\<exists>t' q. lhs c = Var (properties_out t' q)) \<and> filter downstream (vars_of (rhs c)) = [])
       \<and> distinct (map lhs (constraints_of comps))
       \<and> length (constraints_of comps) = 17 * length time"
proof -
  note cs = constraints_of_build [OF assms(1)]
  have d: "distinct (map lhs (constraints_of comps))"
    by (rule distinct_lhs_of_build [OF assms(1,2)])
  have one: "filter (\<lambda>c. lhs c = Var (properties_out t q)) (constraints_of comps) = [c]"
    if "c \<in> set (constraints_of comps)" and "lhs c = Var (properties_out t q)" for c q
    using filter_distinct_key [OF d that(1)] that(2) by simp
  have pass: "filter (\<lambda>c. lhs c = Var (properties_out t q)) (constraints_of comps) =
              [Eq (Var (properties_out t q)) (Var (properties_in t q))]"
    if "q \<in> set (flow_vol # map conc_mass_comp metals)" for q
  proof (rule one)
    show "Eq (Var (properties_out t q)) (Var (properties_in t q)) \<in> set (constraints_of comps)"
      using that assms(3) unfolding cs by (auto simp: image_iff)
  qed simp
  have water: "filter (\<lambda>c. lhs c = Var (properties_out t (conc_mass_comp ''H2O''))) (constraints_of comps) =
              [Eq (Var (properties_out t (conc_mass_comp ''H2O'')))
                  (Div (Mul (Num (PFloat (float_literal (10 ^ 6) 1))) (Unit ''mg'')) (Unit ''L''))]"
  proof (rule one)
    show "Eq (Var (properties_out t (conc_mass_comp ''H2O'')))
                  (Div (Mul (Num (PFloat (float_literal (10 ^ 6) 1))) (Unit ''mg'')) (Unit ''L''))
          \<in> set (constraints_of comps)"
      using assms(3) unfolding cs by (auto simp: image_iff)
  qed simp
  have acid: "filter (\<lambda>c. lhs c = Var (properties_out t (conc_mass_comp i))) (constraints_of comps) =
              [Eq (Var (properties_out t (conc_mass_comp i)))
                  (Div (Mul (Num (PFloat (float_literal 1 (10 ^ 10)))) (Unit ''mg'')) (Unit ''L''))]"
    if "i \<in> set acids" for i
  proof (rule one)
    show "Eq (Var (properties_out t (conc_mass_comp i)))
                  (Div (Mul (Num (PFloat (float_literal 1 (10 ^ 10)))) (Unit ''mg'')) (Unit ''L''))
          \<in> set (constraints_of comps)"
      using that assms(3) unfolding cs by (auto simp: image_iff)
  qed simp
  have none: "filter (mentions q) (constraints_of comps) = []"
    if "q \<notin> set (flow_vol # map conc_mass_comp (metals @ ''H2O'' # acids))" for q
    using mentions_build [OF assms(1)] that by (auto simp: filter_empty_conv)
  have shape: "(\<exists>t' q. lhs c = Var (properties_out t' q)) \<and> filter downstream (vars_of (rhs c)) = []"
    if "c \<in> set (constraints_of comps)" for c
    using that unfolding cs by auto
  have len: "length (constraints_of comps) = 17 * length time"
    unfolding cs by (simp add: metals_def acids_def)
  show ?thesis
    using constraint_at_build(1) [OF assms(1,3)] pass water acid none shape d len by blast
qed

theorem translator_one_constraint_per_listed_quantity_witness:
  "\<exists>comps. build \<lparr>in_components = metals @ [''Cl''],
                   out_components = metals @ ''H2O'' # acids @ [''Cl'']\<rparr> [0 :: nat, 1] = Inr comps
     \<and> distinct [0 :: nat, 1]
     \<and> constraint_at comps ''eq_flow_vol_rule'' (At 1) =
           Some (Eq (Var (properties_out 1 flow_vol)) (Var (properties_in 1 flow_vol)))
     \<and> filter (\<lambda>c. lhs c = Var (properties_out 1 flow_vol)) (constraints_of comps) =
           [Eq (Var (properties_out 1 flow_vol)) (Var (properties_in 1 flow_vol))]
     \<and> filter (\<lambda>c. lhs c = Var (properties_out 1 (conc_mass_comp ''Nd''))) (constraints_of comps) =
           [Eq (Var (properties_out 1 (conc_mass_comp ''Nd''))) (Var (properties_in 1 (conc_mass_comp ''Nd'')))]
     \<and> filter (\<lambda>c. lhs c = Var (properties_out 1 (conc_mass_comp ''SO4''))) (constraints_of comps) =
           [Eq (Var (properties_out 1 (conc_mass_comp ''SO4'')))
               (Div (Mul (Num (PFloat (float_literal 1 (10 ^ 10)))) (Unit ''mg'')) (Unit ''L''))]
     \<and> filter (mentions (conc_mass_comp ''Cl'')) (constraints_of comps) = []
     \<and> length (constraints_of comps) = 34"
proof -
  obtain comps where
    b: "build \<lparr>in_components = metals @ [''Cl''],
               out_components = metals @ ''H2O'' # acids @ [''Cl'']\<rparr> [0 :: nat, 1] = Inr comps"
    using build_total [of "\<lparr>in_components = metals @ [''Cl''],
               out_components = metals @ ''H2O'' # acids @ [''Cl'']\<rparr>" "[0 :: nat, 1]"]
    by auto
  have d: "distinct [0 :: nat, 1]" by simp
  have t: "(1 :: nat) \<in> set [0, 1]" by simp
  have m: "flow_vol \<in> set (flow_vol # map conc_mass_comp metals)"
    "conc_mass_comp ''Nd'' \<in> set (flow_vol # map conc_mass_comp metals)"
    "''SO4'' \<in> set acids"
    "conc_mass_comp ''Cl'' \<notin> set (flow_vol # map conc_mass_comp (metals @ ''H2O'' # acids))"
    by (simp_all add: metals_def acids_def)
  note th = translator_one_constraint_per_listed_quantity [OF b d t]
  note r = th [THEN conjunct2]
  note r2 = r [THEN conjunct2]
  note r3 = r2 [THEN conjunct2]
  note r4 = r3 [THEN conjunct2]
  have "length (constraints_of comps) = 34"
    using r4 [THEN conjunct2, THEN conjunct2, THEN conjunct2] by simp
  then show ?thesis
    using b d th [THEN conjunct1]
      r [THEN conjunct1, THEN bspec, OF m(1)]
      r [THEN conjunct1, THEN bspec, OF m(2)]
      r3 [THEN conjunct1, THEN bspec, OF m(3)]
      r4 [THEN conjunct1, THEN spec, THEN mp, OF m(4)]
    by (intro exI [of _ comps] conjI) assumption+
qed

subsection \<open>Initialization\<close>

lemma initialize_build_nonzero:
  assumes "properties_in_initialize env m0 = (flags, m1)"
    and "degrees_of_freedom env (properties_out_initialize env m1) \<noteq> 0"
  shows "initialize_build env name m0 =
     \<lparr>result = Inl (Exception (name @
          '' degrees of freedom were not 0 at the beginning of initialization. DoF = '' @
          str_int (degrees_of_freedom env (properties_out_initialize env m1)))),
      block = properties_out_initialize env m1,
      calls = [Get_solver, Properties_in_initialize True, Properties_out_initialize,
               Degrees_of_freedom, Degrees_of_freedom]\<rparr>"
  using assms by (simp add: initialize_build_def Let_def)

lemma initialize_build_solved:
  assumes "properties_in_initialize env m0 = (flags, m1)"
    and "degrees_of_freedom env (properties_out_initialize env m1) = 0"
    and "opt_solve env (properties_out_initialize env m1) = (Inr res, m3)"
  shows "initialize_build env name m0 =
     \<lparr>result = (if check_optimal_termination env res then Inr ()
                else Inl (InitializationError (name @
                  '' failed to initialize successfully. Please check the output logs for more information.''))),
      block = properties_in_release_state env flags m3,
      calls = [Get_solver, Properties_in_initialize True, Properties_out_initialize,
               Degrees_of_freedom, Solve, Properties_in_release_state,
               Log_info (''Initialization Complete: '' @ condition env res)]\<rparr>"
  using assms by (simp add: initialize_build_def Let_def)

lemma initialize_build_solver_raised:
  assumes "properties_in_initialize env m0 = (flags, m1)"
    and "degrees_of_freedom env (properties_out_initialize env m1) = 0"
    and "opt_solve env (properties_out_initialize env m1) = (Inl e, m3)"
  shows "initialize_build env name m0 =
     \<lparr>result = Inl e,
      block = m3,
      calls = [Get_solver, Properties_in_initialize True, Properties_out_initialize,
               Degrees_of_freedom, Solve]\<rparr>"
  using assms by (simp add: initialize_build_def Let_def)

text \<open>
  Claim C2. With \<open>m2\<close> the model after both state blocks are initialized: if its
  degrees of freedom are not zero, \<open>initialize_build\<close> raises an \<open>Exception\<close> whose
  message is the name of the block, a fixed text and the count, and the solver is not
  called; the solver is called iff the count is zero, and then right after the check,
  which comes right after the two initializations.
\<close>

theorem initialize_build_dof_check:
  "(let m2 = properties_out_initialize env (snd (properties_in_initialize env m0));
        out = initialize_build env name m0
    in (degrees_of_freedom env m2 \<noteq> 0 \<longrightarrow>
          result out = Inl (Exception (name @
            '' degrees of freedom were not 0 at the beginning of initialization. DoF = '' @
            str_int (degrees_of_freedom env m2)))
          \<and> Solve \<notin> set (calls out))
     \<and> (Solve \<in> set (calls out) \<longleftrightarrow> degrees_of_freedom env m2 = 0)
     \<and> (degrees_of_freedom env m2 = 0 \<longrightarrow>
          take 5 (calls out) = [Get_solver, Properties_in_initialize True,
                                Properties_out_initialize, Degrees_of_freedom, Solve]))"
proof -
  obtain flags m1 where i: "properties_in_initialize env m0 = (flags, m1)"
    by (cases "properties_in_initialize env m0")
  obtain solved m3 where s: "opt_solve env (properties_out_initialize env m1) = (solved, m3)"
    by (cases "opt_solve env (properties_out_initialize env m1)")
  show ?thesis
  proof (cases "degrees_of_freedom env (properties_out_initialize env m1) = 0")
    case True
    show ?thesis
    proof (cases solved)
      case (Inl e)
      from initialize_build_solver_raised [OF i True s [unfolded Inl]] True i show ?thesis
        by (simp add: Let_def)
    next
      case (Inr res)
      from initialize_build_solved [OF i True s [unfolded Inr]] True i show ?thesis
        by (simp add: Let_def)
    qed
  next
    case False
    from initialize_build_nonzero [OF i False] False i show ?thesis
      by (simp add: Let_def)
  qed
qed

theorem initialize_build_dof_check_witness:
  "degrees_of_freedom (example_unit_env 2 True) True \<noteq> 0
   \<and> result (initialize_build (example_unit_env 2 True) ''fs.translator'' False) =
       Inl (Exception ''fs.translator degrees of freedom were not 0 at the beginning of initialization. DoF = 2'')
   \<and> Solve \<notin> set (calls (initialize_build (example_unit_env 2 True) ''fs.translator'' False))
   \<and> degrees_of_freedom (example_unit_env 0 True) True = 0
   \<and> take 5 (calls (initialize_build (example_unit_env 0 True) ''fs.translator'' False)) =
       [Get_solver, Properties_in_initialize True, Properties_out_initialize, Degrees_of_freedom, Solve]"
  using initialize_build_dof_check [of "example_unit_env 2 True" False "''fs.translator''"]
    initialize_build_dof_check [of "example_unit_env 0 True" False "''fs.translator''"]
  by (simp add: example_unit_env_def Let_def str_int_def)

text \<open>
  Claim C3. If the local solve returns a result that is not an optimal termination,
  \<open>initialize_build\<close> raises an \<open>InitializationError\<close> whose message starts with the name
  of the block; an exception of the solver itself leaves \<open>initialize_build\<close> as it is;
  and \<open>initialize_build\<close> returns normally only if the degrees of freedom were zero and
  the solve returned an optimal termination.
\<close>

theorem initialize_build_not_optimal:
  "(let m2 = properties_out_initialize env (snd (properties_in_initialize env m0));
        solved = fst (opt_solve env m2);
        out = initialize_build env name m0
    in (\<forall>res. degrees_of_freedom env m2 = 0 \<and> solved = Inr res
               \<and> \<not> check_optimal_termination env res \<longrightarrow>
          result out = Inl (InitializationError (name @
            '' failed to initialize successfully. Please check the output logs for more information.'')))
     \<and> (\<forall>e. degrees_of_freedom env m2 = 0 \<and> solved = Inl e \<longrightarrow> result out = Inl e)
     \<and> (result out = Inr () \<longleftrightarrow>
          degrees_of_freedom env m2 = 0
          \<and> (\<exists>res. solved = Inr res \<and> check_optimal_termination env res)))"
proof -
  obtain flags m1 where i: "properties_in_initialize env m0 = (flags, m1)"
    by (cases "properties_in_initialize env m0")
  obtain solved m3 where s: "opt_solve env (properties_out_initialize env m1) = (solved, m3)"
    by (cases "opt_solve env (properties_out_initialize env m1)")
  show ?thesis
  proof (cases "degrees_of_freedom env (properties_out_initialize env m1) = 0")
    case True
    show ?thesis
    proof (cases solved)
      case (Inl e)
      from initialize_build_solver_raised [OF i True s [unfolded Inl]] True i s Inl show ?thesis
        by (simp add: Let_def)
    next
      case (Inr res)
      from initialize_build_solved [OF i True s [unfolded Inr]] True i s Inr show ?thesis
        by (simp add: Let_def)
    qed
  next
    case False
    from initialize_build_nonzero [OF i False] False i show ?thesis
      by (simp add: Let_def)
  qed
qed

theorem initialize_build_not_optimal_witness:
  "degrees_of_freedom (example_unit_env 0 False) True = 0
   \<and> fst (opt_solve (example_unit_env 0 False) True) = Inr False
   \<and> \<not> check_optimal_termination (example_unit_env 0 False) False
   \<and> result (initialize_build (example_unit_env 0 False) ''fs.translator'' False) =
       Inl (InitializationError ''fs.translator failed to initialize successfully. Please check the output logs for more information.'')
   \<and> result (initialize_build (example_unit_env 0 True) ''fs.translator'' False) = Inr ()
   \<and> result (initialize_build raising_unit_env ''fs.translator'' False) =
       Inl (ApplicationError ''Solver (ipopt) did not exit normally'')"
  using initialize_build_not_optimal [of "example_unit_env 0 False" False "''fs.translator''"]
    initialize_build_not_optimal [of "example_unit_env 0 True" False "''fs.translator''"]
    initialize_build_not_optimal [of raising_unit_env False "''fs.translator''"]
  by (auto simp: example_unit_env_def raising_unit_env_def Let_def)

text \<open>
  Claim C9, as stated, fails: the degree-of-freedom check passing is not enough for the
  release. There is no handler around the solve, so when the solver raises after a
  check that passed, \<open>properties_in.release_state\<close> is not called and the inlet state
  stays fixed.
\<close>

theorem initialize_build_solver_raises_counterexample:
  "degrees_of_freedom raising_unit_env
     (properties_out_initialize raising_unit_env (snd (properties_in_initialize raising_unit_env False))) = 0
   \<and> calls (initialize_build raising_unit_env ''fs.translator'' False) =
       [Get_solver, Properties_in_initialize True, Properties_out_initialize, Degrees_of_freedom, Solve]
   \<and> Properties_in_release_state \<notin> set (calls (initialize_build raising_unit_env ''fs.translator'' False))
   \<and> block (initialize_build raising_unit_env ''fs.translator'' False) = True
   \<and> result (initialize_build raising_unit_env ''fs.translator'' False) =
       Inl (ApplicationError ''Solver (ipopt) did not exit normally'')"
  by (simp add: initialize_build_def raising_unit_env_def example_unit_env_def Let_def)

text \<open>
  Claim C9, amended. \<open>properties_in.release_state\<close> is called iff the degrees of freedom
  are zero and the solve returns. When it does, whether or not the termination is
  optimal, the calls end with the solve, the release and the log message
  \<open>Initialization Complete\<close>, and the block is left as the release of the flags of the
  inlet initialization leaves the model the solver left; then the \<open>InitializationError\<close>
  is raised if the termination is not optimal. When the degrees of freedom are not
  zero, the exception leaves the block as the two initializations left it; when the
  solver raises, its exception leaves the block as the solver left it; in both cases
  without a release, the inlet state still held.
\<close>

theorem initialize_build_release:
  "(let (flags, m1) = properties_in_initialize env m0;
        m2 = properties_out_initialize env m1;
        (solved, m3) = opt_solve env m2;
        out = initialize_build env name m0
    in (Properties_in_release_state \<in> set (calls out) \<longleftrightarrow>
          degrees_of_freedom env m2 = 0 \<and> (\<exists>res. solved = Inr res))
     \<and> (\<forall>res. degrees_of_freedom env m2 = 0 \<and> solved = Inr res \<longrightarrow>
          calls out = [Get_solver, Properties_in_initialize True, Properties_out_initialize,
                       Degrees_of_freedom, Solve, Properties_in_release_state,
                       Log_info (''Initialization Complete: '' @ condition env res)]
          \<and> block out = properties_in_release_state env flags m3
          \<and> result out =
              (if check_optimal_termination env res then Inr ()
               else Inl (InitializationError (name @
                 '' failed to initialize successfully. Please check the output logs for more information.''))))
     \<and> (\<forall>e. degrees_of_freedom env m2 = 0 \<and> solved = Inl e \<longrightarrow>
          calls out = [Get_solver, Properties_in_initialize True, Properties_out_initialize,
                       Degrees_of_freedom, Solve]
          \<and> block out = m3
          \<and> result out = Inl e)
     \<and> (degrees_of_freedom env m2 \<noteq> 0 \<longrightarrow>
          calls out = [Get_solver, Properties_in_initialize True, Properties_out_initialize,
                       Degrees_of_freedom, Degrees_of_freedom]
          \<and> block out = m2
          \<and> result out = Inl (Exception (name @
              '' degrees of freedom were not 0 at the beginning of initialization. DoF = '' @
              str_int (degrees_of_freedom env m2)))))"
proof -
  obtain flags m1 where i: "properties_in_initialize env m0 = (flags, m1)"
    by (cases "properties_in_initialize env m0")
  obtain solved m3 where s: "opt_solve env (properties_out_initialize env m1) = (solved, m3)"
    by (cases "opt_solve env (properties_out_initialize env m1)")
  show ?thesis
  proof (cases "degrees_of_freedom env (properties_out_initialize env m1) = 0")
    case True
    show ?thesis
    proof (cases solved)
      case (Inl e)
      from initialize_build_solver_raised [OF i True s [unfolded Inl]] True i s Inl show ?thesis
        by (simp add: Let_def)
    next
      case (Inr res)
      from initialize_build_solved [OF i True s [unfolded Inr]] True i s Inr show ?thesis
        by (simp add: Let_def)
    qed
  next
    case False
    from initialize_build_nonzero [OF i False] False i s show ?thesis
      by (simp add: Let_def)
  qed
qed

theorem initialize_build_release_witness:
  "block (initialize_build (example_unit_env 2 True) ''fs.translator'' False) = True
   \<and> Properties_in_release_state \<notin> set (calls (initialize_build (example_unit_env 2 True) ''fs.translator'' False))
   \<and> block (initialize_build (example_unit_env 0 False) ''fs.translator'' False) = False
   \<and> calls (initialize_build (example_unit_env 0 False) ''fs.translator'' False) =
       [Get_solver, Properties_in_initialize True, Properties_out_initialize,
        Degrees_of_freedom, Solve, Properties_in_release_state,
        Log_info ''Initialization Complete: infeasible - Converged to a locally infeasible point'']
   \<and> result (initialize_build (example_unit_env 0 False) ''fs.translator'' False) =
       Inl (InitializationError ''fs.translator failed to initialize successfully. Please check the output logs for more information.'')
   \<and> block (initialize_build (example_unit_env 0 True) ''fs.translator'' False) = False
   \<and> result (initialize_build (example_unit_env 0 True) ''fs.translator'' False) = Inr ()
   \<and> block (initialize_build raising_unit_env ''fs.translator'' False) = True
   \<and> Properties_in_release_state \<notin> set (calls (initialize_build raising_unit_env ''fs.translator'' False))"
  using initialize_build_release [of "example_unit_env 2 True" False "''fs.translator''"]
    initialize_build_release [of "example_unit_env 0 False" False "''fs.translator''"]
    initialize_build_release [of "example_unit_env 0 True" False "''fs.translator''"]
    initialize_build_release [of raising_unit_env False "''fs.translator''"]
  by (auto simp: example_unit_env_def raising_unit_env_def Let_def)

section \<open>Properties of the driver\<close>

lemma feed_Li: "py_mul (PFloat (float_literal 17 10)) (PInt 100) = Inr (PFloat (Finite 5981343255101440 (- 45)))"
  by (simp add: float_eval)

lemma diaf_Li: "py_mul (PFloat (float_literal 1 10)) (PInt 30) = Inr (PFloat (Finite 6755399441055744 (- 51)))"
  by (simp add: float_eval)

lemma diaf_Co: "py_mul (PFloat (float_literal 2 10)) (PInt 30) = Inr (PFloat (Finite 6755399441055744 (- 50)))"
  by (simp add: float_eval)

lemma float_values:
  "float_value (Finite 5981343255101440 (- 45)) = Some 170"
  "float_value (Finite 6755399441055744 (- 51)) = Some 3"
  "float_value (Finite 6755399441055744 (- 50)) = Some 6"
  by simp_all

lemma model_arguments_eq:
  "model_arguments num_s num_t =
     Inr \<lparr>NS = num_s,
          NT = num_t,
          solutes = [''Li'', ''Co''],
          flux = PFloat (float_literal 1 10),
          sieving_coefficient =
            [(''Li'', PFloat (float_literal 13 10)), (''Co'', PFloat (float_literal 5 10))],
          feed = [(''solvent'', PInt 100), (''Li'', PFloat (Finite 5981343255101440 (- 45))),
                  (''Co'', PInt 1700)],
          diafiltrate = [(''solvent'', PInt 30), (''Li'', PFloat (Finite 6755399441055744 (- 51))),
                         (''Co'', PFloat (Finite 6755399441055744 (- 50)))],
          precipitate = True,
          precipitate_yield =
            [(''permeate'',
                [(''Li'', PFloat (float_literal 81 100)), (''Co'', PFloat (float_literal 1 100))]),
             (''retentate'',
                [(''Li'', PFloat (float_literal 20 100)), (''Co'', PFloat (float_literal 89 100))])]\<rparr>"
  unfolding model_arguments_def feed_Li diaf_Li diaf_Co
  by (simp add: try_bind_def)

lemma main_parsed:
  assumes "collect_arguments env argv = Inr (mix_style, num_s, num_t)"
    and "model_arguments num_s num_t = Inr cfg"
  shows "main env argv = solve_flowsheet env cfg mix_style"
  using assms by (simp add: main_def)

lemma main_not_parsed:
  assumes "collect_arguments env argv = Inl e"
  shows "main env argv = \<lparr>returned = Inl e, trace = []\<rparr>"
  using assms by (simp add: main_def)

lemma collect_arguments_three:
  assumes "int_of_str env s = Inr num_s" and "int_of_str env t = Inr num_t"
  shows "collect_arguments env (prog # mix_style # s # t # rest) = Inr (mix_style, num_s, num_t)"
  using assms by (simp add: collect_arguments_def subscript_def try_bind_def)

lemma solve_flowsheet_eq:
  assumes "solver_solve env (set_R env (PFloat (float_literal 8 10)) (prepare_model env cfg mixing)) = (res, m6)"
  shows "solve_flowsheet env cfg mixing =
     \<lparr>returned = Inr (),
      trace = [DiafiltrationModel cfg, Build_flowsheet mixing, Initialize mixing True,
               Unfix_dof mixing True,
               Precipitator_V_fix ''retentate'' (PInt 500),
               Precipitator_V_fix ''permeate'' (PInt 500),
               Report_statistics (prepare_model env cfg mixing),
               Set_R (PFloat (float_literal 8 10)),
               SolverFactory ''ipopt'',
               Solver_solve (set_R env (PFloat (float_literal 8 10)) (prepare_model env cfg mixing)) True,
               Display ''prec_perc_co'',
               Display ''prec_perc_li'',
               Report_values m6]\<rparr>"
  using assms by (simp add: solve_flowsheet_def Let_def)

lemma prepare_model_eq:
  "prepare_model env cfg mixing =
     precipitator_V_fix env ''permeate'' (PInt 500)
       (precipitator_V_fix env ''retentate'' (PInt 500)
         (unfix_dof env (new_model env cfg)
           (initialize env (new_model env cfg)
             (build_flowsheet env (new_model env cfg) mixing) mixing True) mixing True))"
  by (simp add: prepare_model_def Let_def)

text \<open>
  Claim C8. \<open>main\<close> reads the mixing strategy, the number of stages and the number of
  tubes from the three arguments after the program name, the two numbers through
  \<open>int\<close>. It makes the model with the solutes \<open>Li\<close> and \<open>Co\<close>, a feed of solvent 100,
  \<open>Li\<close> 170 (the product \<open>1.7 * 100\<close> of doubles) and \<open>Co\<close> 1700, a diafiltrate of solvent
  30, \<open>Li\<close> 3 and \<open>Co\<close> 6, the flux \<open>0.1\<close> and the sieving coefficients \<open>1.3\<close> and \<open>0.5\<close>;
  and the model whose statistics it reports and which it solves is the one that was
  built, initialized and released, with the volumes of the two precipitators then fixed
  to 500.
\<close>

theorem main_hard_coded_model:
  assumes "int_of_str env s = Inr num_s" and "int_of_str env t = Inr num_t"
  shows "\<exists>cfg m6.
     main env (prog # mix_style # s # t # rest) =
       \<lparr>returned = Inr (),
        trace = [DiafiltrationModel cfg, Build_flowsheet mix_style, Initialize mix_style True,
                 Unfix_dof mix_style True,
                 Precipitator_V_fix ''retentate'' (PInt 500),
                 Precipitator_V_fix ''permeate'' (PInt 500),
                 Report_statistics (prepare_model env cfg mix_style),
                 Set_R (PFloat (float_literal 8 10)),
                 SolverFactory ''ipopt'',
                 Solver_solve (set_R env (PFloat (float_literal 8 10)) (prepare_model env cfg mix_style)) True,
                 Display ''prec_perc_co'',
                 Display ''prec_perc_li'',
                 Report_values m6]\<rparr>
     \<and> NS cfg = num_s \<and> NT cfg = num_t
     \<and> solutes cfg = [''Li'', ''Co'']
     \<and> map (\<lambda>(k, v). (k, num_value v)) (feed cfg) =
         [(''solvent'', Some 100), (''Li'', Some 170), (''Co'', Some 1700)]
     \<and> map (\<lambda>(k, v). (k, num_value v)) (diafiltrate cfg) =
         [(''solvent'', Some 30), (''Li'', Some 3), (''Co'', Some 6)]
     \<and> flux cfg = PFloat (float_literal 1 10)
     \<and> sieving_coefficient cfg =
         [(''Li'', PFloat (float_literal 13 10)), (''Co'', PFloat (float_literal 5 10))]
     \<and> prepare_model env cfg mix_style =
         precipitator_V_fix env ''permeate'' (PInt 500)
           (precipitator_V_fix env ''retentate'' (PInt 500)
             (unfix_dof env (new_model env cfg)
               (initialize env (new_model env cfg)
                 (build_flowsheet env (new_model env cfg) mix_style) mix_style True) mix_style True))"
proof -
  obtain cfg where cfg: "model_arguments num_s num_t = Inr cfg"
    using model_arguments_eq by blast
  obtain res m6 where
    s: "solver_solve env (set_R env (PFloat (float_literal 8 10)) (prepare_model env cfg mix_style)) = (res, m6)"
    by (cases "solver_solve env (set_R env (PFloat (float_literal 8 10)) (prepare_model env cfg mix_style))")
  have m: "main env (prog # mix_style # s # t # rest) = solve_flowsheet env cfg mix_style"
    by (rule main_parsed [OF collect_arguments_three [OF assms] cfg])
  have f: "NS cfg = num_s" "NT cfg = num_t" "solutes cfg = [''Li'', ''Co'']"
    "map (\<lambda>(k, v). (k, num_value v)) (feed cfg) =
         [(''solvent'', Some 100), (''Li'', Some 170), (''Co'', Some 1700)]"
    "map (\<lambda>(k, v). (k, num_value v)) (diafiltrate cfg) =
         [(''solvent'', Some 30), (''Li'', Some 3), (''Co'', Some 6)]"
    "flux cfg = PFloat (float_literal 1 10)"
    "sieving_coefficient cfg =
         [(''Li'', PFloat (float_literal 13 10)), (''Co'', PFloat (float_literal 5 10))]"
    using cfg unfolding model_arguments_eq by auto
  show ?thesis
    by (rule exI [of _ cfg], rule exI [of _ m6])
      (simp add: m solve_flowsheet_eq [OF s] f prepare_model_eq)
qed

lemma example_collect_arguments:
  "collect_arguments example_env [''solve_diafiltration.py'', ''tube'', ''2'', ''3''] = Inr (''tube'', 2, 3)"
  by (simp add: collect_arguments_def subscript_def try_bind_def example_env_def decimal_def
      digit_value_def)

lemma example_prepare_model: "prepare_model example_env cfg mixing = 4"
  by (simp add: prepare_model_def example_env_def Let_def)

lemma example_main:
  "\<exists>cfg. main example_env [''solve_diafiltration.py'', ''tube'', ''2'', ''3''] =
     \<lparr>returned = Inr (),
      trace = [DiafiltrationModel cfg, Build_flowsheet ''tube'', Initialize ''tube'' True,
               Unfix_dof ''tube'' True,
               Precipitator_V_fix ''retentate'' (PInt 500),
               Precipitator_V_fix ''permeate'' (PInt 500),
               Report_statistics 4,
               Set_R (PFloat (float_literal 8 10)),
               SolverFactory ''ipopt'',
               Solver_solve 4 True,
               Display ''prec_perc_co'',
               Display ''prec_perc_li'',
               Report_values 4]\<rparr>"
proof -
  obtain cfg where cfg: "model_arguments 2 3 = Inr cfg"
    using model_arguments_eq by blast
  have s: "solver_solve example_env (set_R example_env (PFloat (float_literal 8 10))
             (prepare_model example_env cfg ''tube'')) = (False, 4)"
    unfolding example_prepare_model by (simp add: example_env_def)
  show ?thesis
    unfolding main_parsed [OF example_collect_arguments cfg] solve_flowsheet_eq [OF s]
      example_prepare_model
    by (rule exI [of _ cfg]) (simp add: example_env_def)
qed

theorem main_hard_coded_model_witness:
  "int_of_str example_env ''2'' = Inr 2 \<and> int_of_str example_env ''3'' = Inr 3
   \<and> (\<exists>cfg. hd (trace (main example_env [''solve_diafiltration.py'', ''tube'', ''2'', ''3''])) =
               DiafiltrationModel cfg
          \<and> NS cfg = 2 \<and> NT cfg = 3 \<and> solutes cfg = [''Li'', ''Co'']
          \<and> map (\<lambda>(k, v). (k, num_value v)) (feed cfg) =
              [(''solvent'', Some 100), (''Li'', Some 170), (''Co'', Some 1700)]
          \<and> map (\<lambda>(k, v). (k, num_value v)) (diafiltrate cfg) =
              [(''solvent'', Some 30), (''Li'', Some 3), (''Co'', Some 6)])"
proof -
  have s: "int_of_str example_env ''2'' = Inr 2"
    by (simp add: example_env_def decimal_def digit_value_def)
  have t: "int_of_str example_env ''3'' = Inr 3"
    by (simp add: example_env_def decimal_def digit_value_def)
  from main_hard_coded_model [OF s t, of "''solve_diafiltration.py''" "''tube''" "[]"]
  show ?thesis using s t by auto
qed

text \<open>
  Claim C10. Whatever the arguments: every model \<open>main\<close> makes has \<open>precipitate=True\<close>
  and the four precipitate yields of the source, \<open>initialize\<close> and \<open>unfix_dof\<close> are
  called with \<open>precipitate=True\<close>, and the model handed to the solver is one on which
  \<open>m.R\<close> was set to \<open>0.8\<close> just before. When \<open>main\<close> returns normally it did make a
  model and solve it.
\<close>

theorem main_precipitation_constants:
  "(\<forall>cfg. DiafiltrationModel cfg \<in> set (trace (main env argv)) \<longrightarrow>
      precipitate cfg
      \<and> precipitate_yield cfg =
          [(''permeate'',
              [(''Li'', PFloat (float_literal 81 100)), (''Co'', PFloat (float_literal 1 100))]),
           (''retentate'',
              [(''Li'', PFloat (float_literal 20 100)), (''Co'', PFloat (float_literal 89 100))])])
   \<and> (\<forall>mixing prec. Initialize mixing prec \<in> set (trace (main env argv))
          \<or> Unfix_dof mixing prec \<in> set (trace (main env argv)) \<longrightarrow> prec)
   \<and> (\<forall>m tee. Solver_solve m tee \<in> set (trace (main env argv)) \<longrightarrow>
        (\<exists>pre post m4. trace (main env argv) =
            pre @ [Set_R (PFloat (float_literal 8 10)), SolverFactory ''ipopt'', Solver_solve m tee] @ post
          \<and> m = set_R env (PFloat (float_literal 8 10)) m4))
   \<and> (returned (main env argv) = Inr () \<longrightarrow>
        (\<exists>cfg. DiafiltrationModel cfg \<in> set (trace (main env argv)))
        \<and> (\<exists>m. Solver_solve m True \<in> set (trace (main env argv))))"
proof (cases "collect_arguments env argv")
  case (Inl e)
  show ?thesis
    unfolding main_not_parsed [OF Inl] by simp
next
  case (Inr a)
  obtain mix_style num_s num_t where a: "a = (mix_style, num_s, num_t)"
    by (cases a)
  obtain cfg where cfg: "model_arguments num_s num_t = Inr cfg"
    using model_arguments_eq by blast
  obtain res m6 where
    s: "solver_solve env (set_R env (PFloat (float_literal 8 10)) (prepare_model env cfg mix_style)) = (res, m6)"
    by (cases "solver_solve env (set_R env (PFloat (float_literal 8 10)) (prepare_model env cfg mix_style))")
  have p: "precipitate cfg"
    "precipitate_yield cfg =
          [(''permeate'',
              [(''Li'', PFloat (float_literal 81 100)), (''Co'', PFloat (float_literal 1 100))]),
           (''retentate'',
              [(''Li'', PFloat (float_literal 20 100)), (''Co'', PFloat (float_literal 89 100))])]"
    using cfg unfolding model_arguments_eq by auto
  have split: "\<exists>pre post m4.
      [DiafiltrationModel cfg, Build_flowsheet mix_style, Initialize mix_style True,
       Unfix_dof mix_style True,
       Precipitator_V_fix ''retentate'' (PInt 500),
       Precipitator_V_fix ''permeate'' (PInt 500),
       Report_statistics (prepare_model env cfg mix_style),
       Set_R (PFloat (float_literal 8 10)),
       SolverFactory ''ipopt'',
       Solver_solve (set_R env (PFloat (float_literal 8 10)) (prepare_model env cfg mix_style)) True,
       Display ''prec_perc_co'',
       Display ''prec_perc_li'',
       Report_values m6] =
      pre @ [Set_R (PFloat (float_literal 8 10)), SolverFactory ''ipopt'',
             Solver_solve (set_R env (PFloat (float_literal 8 10)) (prepare_model env cfg mix_style)) True] @ post
      \<and> set_R env (PFloat (float_literal 8 10)) (prepare_model env cfg mix_style) =
          set_R env (PFloat (float_literal 8 10)) m4"
    by (rule exI [of _ "[DiafiltrationModel cfg, Build_flowsheet mix_style, Initialize mix_style True,
       Unfix_dof mix_style True,
       Precipitator_V_fix ''retentate'' (PInt 500),
       Precipitator_V_fix ''permeate'' (PInt 500),
       Report_statistics (prepare_model env cfg mix_style)]"],
        rule exI [of _ "[Display ''prec_perc_co'', Display ''prec_perc_li'', Report_values m6]"],
        rule exI [of _ "prepare_model env cfg mix_style"]) simp
  show ?thesis
    unfolding main_parsed [OF Inr [unfolded a] cfg] solve_flowsheet_eq [OF s]
    using p split by auto
qed

theorem main_precipitation_constants_witness:
  "returned (main example_env [''solve_diafiltration.py'', ''tube'', ''2'', ''3'']) = Inr ()
   \<and> (\<exists>cfg. DiafiltrationModel cfg \<in> set (trace (main example_env [''solve_diafiltration.py'', ''tube'', ''2'', ''3'']))
          \<and> precipitate cfg
          \<and> precipitate_yield cfg =
              [(''permeate'',
                  [(''Li'', PFloat (float_literal 81 100)), (''Co'', PFloat (float_literal 1 100))]),
               (''retentate'',
                  [(''Li'', PFloat (float_literal 20 100)), (''Co'', PFloat (float_literal 89 100))])])"
proof -
  from example_main have r: "returned (main example_env [''solve_diafiltration.py'', ''tube'', ''2'', ''3'']) = Inr ()"
    by auto
  from main_precipitation_constants [of example_env "[''solve_diafiltration.py'', ''tube'', ''2'', ''3'']"] r
  show ?thesis by blast
qed

text \<open>
  Claim C4, as stated, fails: \<open>main\<close> binds the result of the solver to a name and
  never reads it. In the example environment the solver is handed a model with four
  degrees of freedom and does not end optimal; \<open>main\<close> goes on to print the recoveries
  and the flows and returns normally.
\<close>

theorem main_masks_non_optimal_counterexample:
  "\<not> optimal example_env (fst (solver_solve example_env 4))
   \<and> Solver_solve 4 True \<in> set (trace (main example_env [''solve_diafiltration.py'', ''tube'', ''2'', ''3'']))
   \<and> drop 10 (trace (main example_env [''solve_diafiltration.py'', ''tube'', ''2'', ''3''])) =
       [Display ''prec_perc_co'', Display ''prec_perc_li'', Report_values 4]
   \<and> returned (main example_env [''solve_diafiltration.py'', ''tube'', ''2'', ''3'']) = Inr ()"
proof -
  have "\<not> optimal example_env (fst (solver_solve example_env 4))"
    by (simp add: example_env_def)
  with example_main show ?thesis by auto
qed

text \<open>
  Claim C4, amended. \<open>main\<close> calls the solver at most once, and exactly once when its
  arguments are read; it never retries. It does not read the termination status:
  after the one solve it prints the two recoveries and the flows and returns normally,
  and a solver that returns any other status leaves the run of \<open>main\<close> the same.
\<close>

theorem main_solves_once_ignoring_status:
  "length (filter is_solve (trace (main env argv))) \<le> 1
   \<and> (\<forall>mix_style num_s num_t. collect_arguments env argv = Inr (mix_style, num_s, num_t) \<longrightarrow>
        length (filter is_solve (trace (main env argv))) = 1
        \<and> returned (main env argv) = Inr ()
        \<and> (\<exists>m6. drop 10 (trace (main env argv)) =
              [Display ''prec_perc_co'', Display ''prec_perc_li'', Report_values m6]))
   \<and> main (env\<lparr>solver_solve := (\<lambda>m. (r m, snd (solver_solve env m)))\<rparr>) argv = main env argv"
proof -
  have same: "main (env\<lparr>solver_solve := (\<lambda>m. (r m, snd (solver_solve env m)))\<rparr>) argv = main env argv"
    by (simp add: main_def collect_arguments_def solve_flowsheet_def prepare_model_def Let_def
        case_prod_unfold split: sum.splits)
  show ?thesis
  proof (cases "collect_arguments env argv")
    case (Inl e)
    show ?thesis
      using same unfolding main_not_parsed [OF Inl] by (simp add: Inl)
  next
    case (Inr a)
    obtain mix_style num_s num_t where a: "a = (mix_style, num_s, num_t)"
      by (cases a)
    obtain cfg where cfg: "model_arguments num_s num_t = Inr cfg"
      using model_arguments_eq by blast
    obtain res m6 where
      s: "solver_solve env (set_R env (PFloat (float_literal 8 10)) (prepare_model env cfg mix_style)) = (res, m6)"
      by (cases "solver_solve env (set_R env (PFloat (float_literal 8 10)) (prepare_model env cfg mix_style))")
    have m: "main env argv =
       \<lparr>returned = Inr (),
        trace = [DiafiltrationModel cfg, Build_flowsheet mix_style, Initialize mix_style True,
                 Unfix_dof mix_style True,
                 Precipitator_V_fix ''retentate'' (PInt 500),
                 Precipitator_V_fix ''permeate'' (PInt 500),
                 Report_statistics (prepare_model env cfg mix_style),
                 Set_R (PFloat (float_literal 8 10)),
                 SolverFactory ''ipopt'',
                 Solver_solve (set_R env (PFloat (float_literal 8 10)) (prepare_model env cfg mix_style)) True,
                 Display ''prec_perc_co'',
                 Display ''prec_perc_li'',
                 Report_values m6]\<rparr>"
      unfolding main_parsed [OF Inr [unfolded a] cfg] solve_flowsheet_eq [OF s] ..
    have "length (filter is_solve (trace (main env argv))) = 1"
      "returned (main env argv) = Inr ()"
      "drop 10 (trace (main env argv)) =
              [Display ''prec_perc_co'', Display ''prec_perc_li'', Report_values m6]"
      unfolding m by simp_all
    with same show ?thesis by auto
  qed
qed

theorem main_solves_once_ignoring_status_witness:
  "collect_arguments example_env [''solve_diafiltration.py'', ''tube'', ''2'', ''3''] = Inr (''tube'', 2, 3)
   \<and> length (filter is_solve (trace (main example_env [''solve_diafiltration.py'', ''tube'', ''2'', ''3'']))) = 1
   \<and> returned (main example_env [''solve_diafiltration.py'', ''tube'', ''2'', ''3'']) = Inr ()
   \<and> main (example_env\<lparr>solver_solve := (\<lambda>m. (True, snd (solver_solve example_env m)))\<rparr>)
        [''solve_diafiltration.py'', ''tube'', ''2'', ''3''] =
      main example_env [''solve_diafiltration.py'', ''tube'', ''2'', ''3'']"
  using main_solves_once_ignoring_status [of example_env "[''solve_diafiltration.py'', ''tube'', ''2'', ''3'']" "\<lambda>m. True"]
    example_collect_arguments
  by simp

text \<open>
  Claim C5, as stated, fails: \<open>main\<close> has no check of the degrees of freedom. In the
  example environment the assembled model has four; \<open>main\<close> reports the statistics,
  solves and returns normally.
\<close>

theorem main_solves_with_free_variables_counterexample:
  "model_dof example_env 4 \<noteq> 0
   \<and> take 10 (drop 6 (trace (main example_env [''solve_diafiltration.py'', ''tube'', ''2'', ''3'']))) =
       [Report_statistics 4, Set_R (PFloat (float_literal 8 10)), SolverFactory ''ipopt'',
        Solver_solve 4 True, Display ''prec_perc_co'', Display ''prec_perc_li'', Report_values 4]
   \<and> returned (main example_env [''solve_diafiltration.py'', ''tube'', ''2'', ''3'']) = Inr ()"
proof -
  have "model_dof example_env 4 \<noteq> 0"
    by (simp add: example_env_def)
  with example_main show ?thesis by auto
qed

text \<open>
  Claim C5, amended. After \<open>unfix_dof\<close> and the two fixes, and before the solver is
  called, \<open>main\<close> calls \<open>report_statistics\<close> on the assembled model; it makes no check of
  the degrees of freedom: the solver is called next whatever their count, \<open>main\<close>
  raises nothing, and the run of \<open>main\<close> does not depend on the count.
\<close>

theorem main_reports_statistics_unchecked:
  "(\<forall>mix_style num_s num_t. collect_arguments env argv = Inr (mix_style, num_s, num_t) \<longrightarrow>
      (\<exists>cfg. take 10 (trace (main env argv)) =
          [DiafiltrationModel cfg, Build_flowsheet mix_style, Initialize mix_style True,
           Unfix_dof mix_style True,
           Precipitator_V_fix ''retentate'' (PInt 500),
           Precipitator_V_fix ''permeate'' (PInt 500),
           Report_statistics (prepare_model env cfg mix_style),
           Set_R (PFloat (float_literal 8 10)),
           SolverFactory ''ipopt'',
           Solver_solve (set_R env (PFloat (float_literal 8 10)) (prepare_model env cfg mix_style)) True])
      \<and> returned (main env argv) = Inr ())
   \<and> main (env\<lparr>model_dof := d\<rparr>) argv = main env argv"
proof -
  have same: "main (env\<lparr>model_dof := d\<rparr>) argv = main env argv"
    by (simp add: main_def collect_arguments_def solve_flowsheet_def prepare_model_def Let_def
        case_prod_unfold split: sum.splits)
  show ?thesis
  proof (cases "collect_arguments env argv")
    case (Inl e)
    show ?thesis using same by (simp add: Inl)
  next
    case (Inr a)
    obtain mix_style num_s num_t where a: "a = (mix_style, num_s, num_t)"
      by (cases a)
    obtain cfg where cfg: "model_arguments num_s num_t = Inr cfg"
      using model_arguments_eq by blast
    obtain res m6 where
      s: "solver_solve env (set_R env (PFloat (float_literal 8 10)) (prepare_model env cfg mix_style)) = (res, m6)"
      by (cases "solver_solve env (set_R env (PFloat (float_literal 8 10)) (prepare_model env cfg mix_style))")
    have m: "main env argv =
       \<lparr>returned = Inr (),
        trace = [DiafiltrationModel cfg, Build_flowsheet mix_style, Initialize mix_style True,
                 Unfix_dof mix_style True,
                 Precipitator_V_fix ''retentate'' (PInt 500),
                 Precipitator_V_fix ''permeate'' (PInt 500),
                 Report_statistics (prepare_model env cfg mix_style),
                 Set_R (PFloat (float_literal 8 10)),
                 SolverFactory ''ipopt'',
                 Solver_solve (set_R env (PFloat (float_literal 8 10)) (prepare_model env cfg mix_style)) True,
                 Display ''prec_perc_co'',
                 Display ''prec_perc_li'',
                 Report_values m6]\<rparr>"
      unfolding main_parsed [OF Inr [unfolded a] cfg] solve_flowsheet_eq [OF s] ..
    have "take 10 (trace (main env argv)) =
          [DiafiltrationModel cfg, Build_flowsheet mix_style, Initialize mix_style True,
           Unfix_dof mix_style True,
           Precipitator_V_fix ''retentate'' (PInt 500),
           Precipitator_V_fix ''permeate'' (PInt 500),
           Report_statistics (prepare_model env cfg mix_style),
           Set_R (PFloat (float_literal 8 10)),
           SolverFactory ''ipopt'',
           Solver_solve (set_R env (PFloat (float_literal 8 10)) (prepare_model env cfg mix_style)) True]"
      "returned (main env argv) = Inr ()"
      unfolding m by simp_all
    with same show ?thesis by (auto simp: Inr a)
  qed
qed

theorem main_reports_statistics_unchecked_witness:
  "collect_arguments example_env [''solve_diafiltration.py'', ''tube'', ''2'', ''3''] = Inr (''tube'', 2, 3)
   \<and> (\<exists>cfg. take 10 (trace (main example_env [''solve_diafiltration.py'', ''tube'', ''2'', ''3''])) =
          [DiafiltrationModel cfg, Build_flowsheet ''tube'', Initialize ''tube'' True,
           Unfix_dof ''tube'' True,
           Precipitator_V_fix ''retentate'' (PInt 500),
           Precipitator_V_fix ''permeate'' (PInt 500),
           Report_statistics 4,
           Set_R (PFloat (float_literal 8 10)),
           SolverFactory ''ipopt'',
           Solver_solve 4 True])
   \<and> returned (main example_env [''solve_diafiltration.py'', ''tube'', ''2'', ''3'']) = Inr ()
   \<and> main (example_env\<lparr>model_dof := (\<lambda>m. 0)\<rparr>) [''solve_diafiltration.py'', ''tube'', ''2'', ''3''] =
      main example_env [''solve_diafiltration.py'', ''tube'', ''2'', ''3'']"
proof -
  have sr: "set_R example_env v m = m" for v m
    by (simp add: example_env_def)
  from main_reports_statistics_unchecked
    [of example_env "[''solve_diafiltration.py'', ''tube'', ''2'', ''3'']" "\<lambda>m. 0"]
    example_collect_arguments
  show ?thesis
    by (simp add: example_prepare_model sr)
qed

end
